theory Spec2Isabelle
  imports Main
begin

section \<open>Python strings and bytes\<close>

text \<open>
  A Python \<open>str\<close> is a sequence of Unicode code points and a \<open>bytes\<close> object a sequence
  of integers below 256. Both are modelled as lists of natural numbers. ASCII literals of
  the source are written with \<open>str\<close>.
\<close>

type_synonym pystr = "nat list"
type_synonym pybytes = "nat list"

definition str :: "string \<Rightarrow> pystr" where
  "str s = map of_char s"

text \<open>Lookup in a table of inclusive code point ranges.\<close>

fun in_ranges :: "nat \<Rightarrow> (nat \<times> nat) list \<Rightarrow> bool" where
  "in_ranges c [] = False"
| "in_ranges c ((lo, hi) # rs) = (if lo \<le> c \<and> c \<le> hi then True else in_ranges c rs)"

text \<open>
  \<open>str.isspace\<close>: the code points whose bidirectional class is WS, B or S or whose general
  category is Zs (Unicode 14.0.0, the database of CPython 3.11).
\<close>

definition space_ranges :: "(nat \<times> nat) list" where
  "space_ranges = [
    (0x9, 0xD), (0x1C, 0x20), (0x85, 0x85), (0xA0, 0xA0), (0x1680, 0x1680),
    (0x2000, 0x200A), (0x2028, 0x2029), (0x202F, 0x202F), (0x205F, 0x205F), (0x3000, 0x3000)]"

definition isspace :: "nat \<Rightarrow> bool" where
  "isspace c = in_ranges c space_ranges"

text \<open>
  \<open>str.isalnum\<close> for a one-character string: true when one of \<open>isalpha\<close>, \<open>isdecimal\<close>,
  \<open>isdigit\<close>, \<open>isnumeric\<close> is. The ASCII part is the digits and the letters; the other
  tables list the code points from U+0080 on, in ascending order and cut into blocks (Unicode 14.0.0, the database of
  CPython 3.11).
\<close>

definition ascii_alnum_ranges :: "(nat \<times> nat) list" where
  "ascii_alnum_ranges = [(0x30, 0x39), (0x41, 0x5A), (0x61, 0x7A)]"

definition alnum_ranges_00AA :: "(nat \<times> nat) list" where
  "alnum_ranges_00AA = [
    (0xAA, 0xAA), (0xB2, 0xB3), (0xB5, 0xB5), (0xB9, 0xBA), (0xBC, 0xBE),
    (0xC0, 0xD6), (0xD8, 0xF6), (0xF8, 0x2C1), (0x2C6, 0x2D1), (0x2E0, 0x2E4),
    (0x2EC, 0x2EC), (0x2EE, 0x2EE), (0x370, 0x374), (0x376, 0x377), (0x37A, 0x37D),
    (0x37F, 0x37F), (0x386, 0x386), (0x388, 0x38A), (0x38C, 0x38C), (0x38E, 0x3A1),
    (0x3A3, 0x3F5), (0x3F7, 0x481), (0x48A, 0x52F), (0x531, 0x556), (0x559, 0x559),
    (0x560, 0x588), (0x5D0, 0x5EA), (0x5EF, 0x5F2), (0x620, 0x64A), (0x660, 0x669),
    (0x66E, 0x66F), (0x671, 0x6D3), (0x6D5, 0x6D5), (0x6E5, 0x6E6), (0x6EE, 0x6FC),
    (0x6FF, 0x6FF), (0x710, 0x710), (0x712, 0x72F), (0x74D, 0x7A5), (0x7B1, 0x7B1)]"

definition alnum_ranges_07C0 :: "(nat \<times> nat) list" where
  "alnum_ranges_07C0 = [
    (0x7C0, 0x7EA), (0x7F4, 0x7F5), (0x7FA, 0x7FA), (0x800, 0x815), (0x81A, 0x81A),
    (0x824, 0x824), (0x828, 0x828), (0x840, 0x858), (0x860, 0x86A), (0x870, 0x887),
    (0x889, 0x88E), (0x8A0, 0x8C9), (0x904, 0x939), (0x93D, 0x93D), (0x950, 0x950),
    (0x958, 0x961), (0x966, 0x96F), (0x971, 0x980), (0x985, 0x98C), (0x98F, 0x990),
    (0x993, 0x9A8), (0x9AA, 0x9B0), (0x9B2, 0x9B2), (0x9B6, 0x9B9), (0x9BD, 0x9BD),
    (0x9CE, 0x9CE), (0x9DC, 0x9DD), (0x9DF, 0x9E1), (0x9E6, 0x9F1), (0x9F4, 0x9F9),
    (0x9FC, 0x9FC), (0xA05, 0xA0A), (0xA0F, 0xA10), (0xA13, 0xA28), (0xA2A, 0xA30),
    (0xA32, 0xA33), (0xA35, 0xA36), (0xA38, 0xA39), (0xA59, 0xA5C), (0xA5E, 0xA5E)]"

definition alnum_ranges_0A66 :: "(nat \<times> nat) list" where
  "alnum_ranges_0A66 = [
    (0xA66, 0xA6F), (0xA72, 0xA74), (0xA85, 0xA8D), (0xA8F, 0xA91), (0xA93, 0xAA8),
    (0xAAA, 0xAB0), (0xAB2, 0xAB3), (0xAB5, 0xAB9), (0xABD, 0xABD), (0xAD0, 0xAD0),
    (0xAE0, 0xAE1), (0xAE6, 0xAEF), (0xAF9, 0xAF9), (0xB05, 0xB0C), (0xB0F, 0xB10),
    (0xB13, 0xB28), (0xB2A, 0xB30), (0xB32, 0xB33), (0xB35, 0xB39), (0xB3D, 0xB3D),
    (0xB5C, 0xB5D), (0xB5F, 0xB61), (0xB66, 0xB6F), (0xB71, 0xB77), (0xB83, 0xB83),
    (0xB85, 0xB8A), (0xB8E, 0xB90), (0xB92, 0xB95), (0xB99, 0xB9A), (0xB9C, 0xB9C),
    (0xB9E, 0xB9F), (0xBA3, 0xBA4), (0xBA8, 0xBAA), (0xBAE, 0xBB9), (0xBD0, 0xBD0),
    (0xBE6, 0xBF2), (0xC05, 0xC0C), (0xC0E, 0xC10), (0xC12, 0xC28), (0xC2A, 0xC39)]"

definition alnum_ranges_0C3D :: "(nat \<times> nat) list" where
  "alnum_ranges_0C3D = [
    (0xC3D, 0xC3D), (0xC58, 0xC5A), (0xC5D, 0xC5D), (0xC60, 0xC61), (0xC66, 0xC6F),
    (0xC78, 0xC7E), (0xC80, 0xC80), (0xC85, 0xC8C), (0xC8E, 0xC90), (0xC92, 0xCA8),
    (0xCAA, 0xCB3), (0xCB5, 0xCB9), (0xCBD, 0xCBD), (0xCDD, 0xCDE), (0xCE0, 0xCE1),
    (0xCE6, 0xCEF), (0xCF1, 0xCF2), (0xD04, 0xD0C), (0xD0E, 0xD10), (0xD12, 0xD3A),
    (0xD3D, 0xD3D), (0xD4E, 0xD4E), (0xD54, 0xD56), (0xD58, 0xD61), (0xD66, 0xD78),
    (0xD7A, 0xD7F), (0xD85, 0xD96), (0xD9A, 0xDB1), (0xDB3, 0xDBB), (0xDBD, 0xDBD),
    (0xDC0, 0xDC6), (0xDE6, 0xDEF), (0xE01, 0xE30), (0xE32, 0xE33), (0xE40, 0xE46),
    (0xE50, 0xE59), (0xE81, 0xE82), (0xE84, 0xE84), (0xE86, 0xE8A), (0xE8C, 0xEA3)]"

definition alnum_ranges_0EA5 :: "(nat \<times> nat) list" where
  "alnum_ranges_0EA5 = [
    (0xEA5, 0xEA5), (0xEA7, 0xEB0), (0xEB2, 0xEB3), (0xEBD, 0xEBD), (0xEC0, 0xEC4),
    (0xEC6, 0xEC6), (0xED0, 0xED9), (0xEDC, 0xEDF), (0xF00, 0xF00), (0xF20, 0xF33),
    (0xF40, 0xF47), (0xF49, 0xF6C), (0xF88, 0xF8C), (0x1000, 0x102A), (0x103F, 0x1049),
    (0x1050, 0x1055), (0x105A, 0x105D), (0x1061, 0x1061), (0x1065, 0x1066), (0x106E, 0x1070),
    (0x1075, 0x1081), (0x108E, 0x108E), (0x1090, 0x1099), (0x10A0, 0x10C5), (0x10C7, 0x10C7),
    (0x10CD, 0x10CD), (0x10D0, 0x10FA), (0x10FC, 0x1248), (0x124A, 0x124D), (0x1250, 0x1256),
    (0x1258, 0x1258), (0x125A, 0x125D), (0x1260, 0x1288), (0x128A, 0x128D), (0x1290, 0x12B0),
    (0x12B2, 0x12B5), (0x12B8, 0x12BE), (0x12C0, 0x12C0), (0x12C2, 0x12C5), (0x12C8, 0x12D6)]"

definition alnum_ranges_12D8 :: "(nat \<times> nat) list" where
  "alnum_ranges_12D8 = [
    (0x12D8, 0x1310), (0x1312, 0x1315), (0x1318, 0x135A), (0x1369, 0x137C), (0x1380, 0x138F),
    (0x13A0, 0x13F5), (0x13F8, 0x13FD), (0x1401, 0x166C), (0x166F, 0x167F), (0x1681, 0x169A),
    (0x16A0, 0x16EA), (0x16EE, 0x16F8), (0x1700, 0x1711), (0x171F, 0x1731), (0x1740, 0x1751),
    (0x1760, 0x176C), (0x176E, 0x1770), (0x1780, 0x17B3), (0x17D7, 0x17D7), (0x17DC, 0x17DC),
    (0x17E0, 0x17E9), (0x17F0, 0x17F9), (0x1810, 0x1819), (0x1820, 0x1878), (0x1880, 0x1884),
    (0x1887, 0x18A8), (0x18AA, 0x18AA), (0x18B0, 0x18F5), (0x1900, 0x191E), (0x1946, 0x196D),
    (0x1970, 0x1974), (0x1980, 0x19AB), (0x19B0, 0x19C9), (0x19D0, 0x19DA), (0x1A00, 0x1A16),
    (0x1A20, 0x1A54), (0x1A80, 0x1A89), (0x1A90, 0x1A99), (0x1AA7, 0x1AA7), (0x1B05, 0x1B33)]"

definition alnum_ranges_1B45 :: "(nat \<times> nat) list" where
  "alnum_ranges_1B45 = [
    (0x1B45, 0x1B4C), (0x1B50, 0x1B59), (0x1B83, 0x1BA0), (0x1BAE, 0x1BE5), (0x1C00, 0x1C23),
    (0x1C40, 0x1C49), (0x1C4D, 0x1C7D), (0x1C80, 0x1C88), (0x1C90, 0x1CBA), (0x1CBD, 0x1CBF),
    (0x1CE9, 0x1CEC), (0x1CEE, 0x1CF3), (0x1CF5, 0x1CF6), (0x1CFA, 0x1CFA), (0x1D00, 0x1DBF),
    (0x1E00, 0x1F15), (0x1F18, 0x1F1D), (0x1F20, 0x1F45), (0x1F48, 0x1F4D), (0x1F50, 0x1F57),
    (0x1F59, 0x1F59), (0x1F5B, 0x1F5B), (0x1F5D, 0x1F5D), (0x1F5F, 0x1F7D), (0x1F80, 0x1FB4),
    (0x1FB6, 0x1FBC), (0x1FBE, 0x1FBE), (0x1FC2, 0x1FC4), (0x1FC6, 0x1FCC), (0x1FD0, 0x1FD3),
    (0x1FD6, 0x1FDB), (0x1FE0, 0x1FEC), (0x1FF2, 0x1FF4), (0x1FF6, 0x1FFC), (0x2070, 0x2071),
    (0x2074, 0x2079), (0x207F, 0x2089), (0x2090, 0x209C), (0x2102, 0x2102), (0x2107, 0x2107)]"

definition alnum_ranges_210A :: "(nat \<times> nat) list" where
  "alnum_ranges_210A = [
    (0x210A, 0x2113), (0x2115, 0x2115), (0x2119, 0x211D), (0x2124, 0x2124), (0x2126, 0x2126),
    (0x2128, 0x2128), (0x212A, 0x212D), (0x212F, 0x2139), (0x213C, 0x213F), (0x2145, 0x2149),
    (0x214E, 0x214E), (0x2150, 0x2189), (0x2460, 0x249B), (0x24EA, 0x24FF), (0x2776, 0x2793),
    (0x2C00, 0x2CE4), (0x2CEB, 0x2CEE), (0x2CF2, 0x2CF3), (0x2CFD, 0x2CFD), (0x2D00, 0x2D25),
    (0x2D27, 0x2D27), (0x2D2D, 0x2D2D), (0x2D30, 0x2D67), (0x2D6F, 0x2D6F), (0x2D80, 0x2D96),
    (0x2DA0, 0x2DA6), (0x2DA8, 0x2DAE), (0x2DB0, 0x2DB6), (0x2DB8, 0x2DBE), (0x2DC0, 0x2DC6),
    (0x2DC8, 0x2DCE), (0x2DD0, 0x2DD6), (0x2DD8, 0x2DDE), (0x2E2F, 0x2E2F), (0x3005, 0x3007),
    (0x3021, 0x3029), (0x3031, 0x3035), (0x3038, 0x303C), (0x3041, 0x3096), (0x309D, 0x309F)]"

definition alnum_ranges_30A1 :: "(nat \<times> nat) list" where
  "alnum_ranges_30A1 = [
    (0x30A1, 0x30FA), (0x30FC, 0x30FF), (0x3105, 0x312F), (0x3131, 0x318E), (0x3192, 0x3195),
    (0x31A0, 0x31BF), (0x31F0, 0x31FF), (0x3220, 0x3229), (0x3248, 0x324F), (0x3251, 0x325F),
    (0x3280, 0x3289), (0x32B1, 0x32BF), (0x3400, 0x4DBF), (0x4E00, 0xA48C), (0xA4D0, 0xA4FD),
    (0xA500, 0xA60C), (0xA610, 0xA62B), (0xA640, 0xA66E), (0xA67F, 0xA69D), (0xA6A0, 0xA6EF),
    (0xA717, 0xA71F), (0xA722, 0xA788), (0xA78B, 0xA7CA), (0xA7D0, 0xA7D1), (0xA7D3, 0xA7D3),
    (0xA7D5, 0xA7D9), (0xA7F2, 0xA801), (0xA803, 0xA805), (0xA807, 0xA80A), (0xA80C, 0xA822),
    (0xA830, 0xA835), (0xA840, 0xA873), (0xA882, 0xA8B3), (0xA8D0, 0xA8D9), (0xA8F2, 0xA8F7),
    (0xA8FB, 0xA8FB), (0xA8FD, 0xA8FE), (0xA900, 0xA925), (0xA930, 0xA946), (0xA960, 0xA97C)]"

definition alnum_ranges_A984 :: "(nat \<times> nat) list" where
  "alnum_ranges_A984 = [
    (0xA984, 0xA9B2), (0xA9CF, 0xA9D9), (0xA9E0, 0xA9E4), (0xA9E6, 0xA9FE), (0xAA00, 0xAA28),
    (0xAA40, 0xAA42), (0xAA44, 0xAA4B), (0xAA50, 0xAA59), (0xAA60, 0xAA76), (0xAA7A, 0xAA7A),
    (0xAA7E, 0xAAAF), (0xAAB1, 0xAAB1), (0xAAB5, 0xAAB6), (0xAAB9, 0xAABD), (0xAAC0, 0xAAC0),
    (0xAAC2, 0xAAC2), (0xAADB, 0xAADD), (0xAAE0, 0xAAEA), (0xAAF2, 0xAAF4), (0xAB01, 0xAB06),
    (0xAB09, 0xAB0E), (0xAB11, 0xAB16), (0xAB20, 0xAB26), (0xAB28, 0xAB2E), (0xAB30, 0xAB5A),
    (0xAB5C, 0xAB69), (0xAB70, 0xABE2), (0xABF0, 0xABF9), (0xAC00, 0xD7A3), (0xD7B0, 0xD7C6),
    (0xD7CB, 0xD7FB), (0xF900, 0xFA6D), (0xFA70, 0xFAD9), (0xFB00, 0xFB06), (0xFB13, 0xFB17),
    (0xFB1D, 0xFB1D), (0xFB1F, 0xFB28), (0xFB2A, 0xFB36), (0xFB38, 0xFB3C), (0xFB3E, 0xFB3E)]"

definition alnum_ranges_FB40 :: "(nat \<times> nat) list" where
  "alnum_ranges_FB40 = [
    (0xFB40, 0xFB41), (0xFB43, 0xFB44), (0xFB46, 0xFBB1), (0xFBD3, 0xFD3D), (0xFD50, 0xFD8F),
    (0xFD92, 0xFDC7), (0xFDF0, 0xFDFB), (0xFE70, 0xFE74), (0xFE76, 0xFEFC), (0xFF10, 0xFF19),
    (0xFF21, 0xFF3A), (0xFF41, 0xFF5A), (0xFF66, 0xFFBE), (0xFFC2, 0xFFC7), (0xFFCA, 0xFFCF),
    (0xFFD2, 0xFFD7), (0xFFDA, 0xFFDC), (0x10000, 0x1000B), (0x1000D, 0x10026), (0x10028, 0x1003A),
    (0x1003C, 0x1003D), (0x1003F, 0x1004D), (0x10050, 0x1005D), (0x10080, 0x100FA), (0x10107, 0x10133),
    (0x10140, 0x10178), (0x1018A, 0x1018B), (0x10280, 0x1029C), (0x102A0, 0x102D0), (0x102E1, 0x102FB),
    (0x10300, 0x10323), (0x1032D, 0x1034A), (0x10350, 0x10375), (0x10380, 0x1039D), (0x103A0, 0x103C3),
    (0x103C8, 0x103CF), (0x103D1, 0x103D5), (0x10400, 0x1049D), (0x104A0, 0x104A9), (0x104B0, 0x104D3)]"

definition alnum_ranges_104D8 :: "(nat \<times> nat) list" where
  "alnum_ranges_104D8 = [
    (0x104D8, 0x104FB), (0x10500, 0x10527), (0x10530, 0x10563), (0x10570, 0x1057A), (0x1057C, 0x1058A),
    (0x1058C, 0x10592), (0x10594, 0x10595), (0x10597, 0x105A1), (0x105A3, 0x105B1), (0x105B3, 0x105B9),
    (0x105BB, 0x105BC), (0x10600, 0x10736), (0x10740, 0x10755), (0x10760, 0x10767), (0x10780, 0x10785),
    (0x10787, 0x107B0), (0x107B2, 0x107BA), (0x10800, 0x10805), (0x10808, 0x10808), (0x1080A, 0x10835),
    (0x10837, 0x10838), (0x1083C, 0x1083C), (0x1083F, 0x10855), (0x10858, 0x10876), (0x10879, 0x1089E),
    (0x108A7, 0x108AF), (0x108E0, 0x108F2), (0x108F4, 0x108F5), (0x108FB, 0x1091B), (0x10920, 0x10939),
    (0x10980, 0x109B7), (0x109BC, 0x109CF), (0x109D2, 0x10A00), (0x10A10, 0x10A13), (0x10A15, 0x10A17),
    (0x10A19, 0x10A35), (0x10A40, 0x10A48), (0x10A60, 0x10A7E), (0x10A80, 0x10A9F), (0x10AC0, 0x10AC7)]"

definition alnum_ranges_10AC9 :: "(nat \<times> nat) list" where
  "alnum_ranges_10AC9 = [
    (0x10AC9, 0x10AE4), (0x10AEB, 0x10AEF), (0x10B00, 0x10B35), (0x10B40, 0x10B55), (0x10B58, 0x10B72),
    (0x10B78, 0x10B91), (0x10BA9, 0x10BAF), (0x10C00, 0x10C48), (0x10C80, 0x10CB2), (0x10CC0, 0x10CF2),
    (0x10CFA, 0x10D23), (0x10D30, 0x10D39), (0x10E60, 0x10E7E), (0x10E80, 0x10EA9), (0x10EB0, 0x10EB1),
    (0x10F00, 0x10F27), (0x10F30, 0x10F45), (0x10F51, 0x10F54), (0x10F70, 0x10F81), (0x10FB0, 0x10FCB),
    (0x10FE0, 0x10FF6), (0x11003, 0x11037), (0x11052, 0x1106F), (0x11071, 0x11072), (0x11075, 0x11075),
    (0x11083, 0x110AF), (0x110D0, 0x110E8), (0x110F0, 0x110F9), (0x11103, 0x11126), (0x11136, 0x1113F),
    (0x11144, 0x11144), (0x11147, 0x11147), (0x11150, 0x11172), (0x11176, 0x11176), (0x11183, 0x111B2),
    (0x111C1, 0x111C4), (0x111D0, 0x111DA), (0x111DC, 0x111DC), (0x111E1, 0x111F4), (0x11200, 0x11211)]"

definition alnum_ranges_11213 :: "(nat \<times> nat) list" where
  "alnum_ranges_11213 = [
    (0x11213, 0x1122B), (0x11280, 0x11286), (0x11288, 0x11288), (0x1128A, 0x1128D), (0x1128F, 0x1129D),
    (0x1129F, 0x112A8), (0x112B0, 0x112DE), (0x112F0, 0x112F9), (0x11305, 0x1130C), (0x1130F, 0x11310),
    (0x11313, 0x11328), (0x1132A, 0x11330), (0x11332, 0x11333), (0x11335, 0x11339), (0x1133D, 0x1133D),
    (0x11350, 0x11350), (0x1135D, 0x11361), (0x11400, 0x11434), (0x11447, 0x1144A), (0x11450, 0x11459),
    (0x1145F, 0x11461), (0x11480, 0x114AF), (0x114C4, 0x114C5), (0x114C7, 0x114C7), (0x114D0, 0x114D9),
    (0x11580, 0x115AE), (0x115D8, 0x115DB), (0x11600, 0x1162F), (0x11644, 0x11644), (0x11650, 0x11659),
    (0x11680, 0x116AA), (0x116B8, 0x116B8), (0x116C0, 0x116C9), (0x11700, 0x1171A), (0x11730, 0x1173B),
    (0x11740, 0x11746), (0x11800, 0x1182B), (0x118A0, 0x118F2), (0x118FF, 0x11906), (0x11909, 0x11909)]"

definition alnum_ranges_1190C :: "(nat \<times> nat) list" where
  "alnum_ranges_1190C = [
    (0x1190C, 0x11913), (0x11915, 0x11916), (0x11918, 0x1192F), (0x1193F, 0x1193F), (0x11941, 0x11941),
    (0x11950, 0x11959), (0x119A0, 0x119A7), (0x119AA, 0x119D0), (0x119E1, 0x119E1), (0x119E3, 0x119E3),
    (0x11A00, 0x11A00), (0x11A0B, 0x11A32), (0x11A3A, 0x11A3A), (0x11A50, 0x11A50), (0x11A5C, 0x11A89),
    (0x11A9D, 0x11A9D), (0x11AB0, 0x11AF8), (0x11C00, 0x11C08), (0x11C0A, 0x11C2E), (0x11C40, 0x11C40),
    (0x11C50, 0x11C6C), (0x11C72, 0x11C8F), (0x11D00, 0x11D06), (0x11D08, 0x11D09), (0x11D0B, 0x11D30),
    (0x11D46, 0x11D46), (0x11D50, 0x11D59), (0x11D60, 0x11D65), (0x11D67, 0x11D68), (0x11D6A, 0x11D89),
    (0x11D98, 0x11D98), (0x11DA0, 0x11DA9), (0x11EE0, 0x11EF2), (0x11FB0, 0x11FB0), (0x11FC0, 0x11FD4),
    (0x12000, 0x12399), (0x12400, 0x1246E), (0x12480, 0x12543), (0x12F90, 0x12FF0), (0x13000, 0x1342E)]"

definition alnum_ranges_14400 :: "(nat \<times> nat) list" where
  "alnum_ranges_14400 = [
    (0x14400, 0x14646), (0x16800, 0x16A38), (0x16A40, 0x16A5E), (0x16A60, 0x16A69), (0x16A70, 0x16ABE),
    (0x16AC0, 0x16AC9), (0x16AD0, 0x16AED), (0x16B00, 0x16B2F), (0x16B40, 0x16B43), (0x16B50, 0x16B59),
    (0x16B5B, 0x16B61), (0x16B63, 0x16B77), (0x16B7D, 0x16B8F), (0x16E40, 0x16E96), (0x16F00, 0x16F4A),
    (0x16F50, 0x16F50), (0x16F93, 0x16F9F), (0x16FE0, 0x16FE1), (0x16FE3, 0x16FE3), (0x17000, 0x187F7),
    (0x18800, 0x18CD5), (0x18D00, 0x18D08), (0x1AFF0, 0x1AFF3), (0x1AFF5, 0x1AFFB), (0x1AFFD, 0x1AFFE),
    (0x1B000, 0x1B122), (0x1B150, 0x1B152), (0x1B164, 0x1B167), (0x1B170, 0x1B2FB), (0x1BC00, 0x1BC6A),
    (0x1BC70, 0x1BC7C), (0x1BC80, 0x1BC88), (0x1BC90, 0x1BC99), (0x1D2E0, 0x1D2F3), (0x1D360, 0x1D378),
    (0x1D400, 0x1D454), (0x1D456, 0x1D49C), (0x1D49E, 0x1D49F), (0x1D4A2, 0x1D4A2), (0x1D4A5, 0x1D4A6)]"

definition alnum_ranges_1D4A9 :: "(nat \<times> nat) list" where
  "alnum_ranges_1D4A9 = [
    (0x1D4A9, 0x1D4AC), (0x1D4AE, 0x1D4B9), (0x1D4BB, 0x1D4BB), (0x1D4BD, 0x1D4C3), (0x1D4C5, 0x1D505),
    (0x1D507, 0x1D50A), (0x1D50D, 0x1D514), (0x1D516, 0x1D51C), (0x1D51E, 0x1D539), (0x1D53B, 0x1D53E),
    (0x1D540, 0x1D544), (0x1D546, 0x1D546), (0x1D54A, 0x1D550), (0x1D552, 0x1D6A5), (0x1D6A8, 0x1D6C0),
    (0x1D6C2, 0x1D6DA), (0x1D6DC, 0x1D6FA), (0x1D6FC, 0x1D714), (0x1D716, 0x1D734), (0x1D736, 0x1D74E),
    (0x1D750, 0x1D76E), (0x1D770, 0x1D788), (0x1D78A, 0x1D7A8), (0x1D7AA, 0x1D7C2), (0x1D7C4, 0x1D7CB),
    (0x1D7CE, 0x1D7FF), (0x1DF00, 0x1DF1E), (0x1E100, 0x1E12C), (0x1E137, 0x1E13D), (0x1E140, 0x1E149),
    (0x1E14E, 0x1E14E), (0x1E290, 0x1E2AD), (0x1E2C0, 0x1E2EB), (0x1E2F0, 0x1E2F9), (0x1E7E0, 0x1E7E6),
    (0x1E7E8, 0x1E7EB), (0x1E7ED, 0x1E7EE), (0x1E7F0, 0x1E7FE), (0x1E800, 0x1E8C4), (0x1E8C7, 0x1E8CF)]"

definition alnum_ranges_1E900 :: "(nat \<times> nat) list" where
  "alnum_ranges_1E900 = [
    (0x1E900, 0x1E943), (0x1E94B, 0x1E94B), (0x1E950, 0x1E959), (0x1EC71, 0x1ECAB), (0x1ECAD, 0x1ECAF),
    (0x1ECB1, 0x1ECB4), (0x1ED01, 0x1ED2D), (0x1ED2F, 0x1ED3D), (0x1EE00, 0x1EE03), (0x1EE05, 0x1EE1F),
    (0x1EE21, 0x1EE22), (0x1EE24, 0x1EE24), (0x1EE27, 0x1EE27), (0x1EE29, 0x1EE32), (0x1EE34, 0x1EE37),
    (0x1EE39, 0x1EE39), (0x1EE3B, 0x1EE3B), (0x1EE42, 0x1EE42), (0x1EE47, 0x1EE47), (0x1EE49, 0x1EE49),
    (0x1EE4B, 0x1EE4B), (0x1EE4D, 0x1EE4F), (0x1EE51, 0x1EE52), (0x1EE54, 0x1EE54), (0x1EE57, 0x1EE57),
    (0x1EE59, 0x1EE59), (0x1EE5B, 0x1EE5B), (0x1EE5D, 0x1EE5D), (0x1EE5F, 0x1EE5F), (0x1EE61, 0x1EE62),
    (0x1EE64, 0x1EE64), (0x1EE67, 0x1EE6A), (0x1EE6C, 0x1EE72), (0x1EE74, 0x1EE77), (0x1EE79, 0x1EE7C),
    (0x1EE7E, 0x1EE7E), (0x1EE80, 0x1EE89), (0x1EE8B, 0x1EE9B), (0x1EEA1, 0x1EEA3), (0x1EEA5, 0x1EEA9)]"

definition alnum_ranges_1EEAB :: "(nat \<times> nat) list" where
  "alnum_ranges_1EEAB = [
    (0x1EEAB, 0x1EEBB), (0x1F100, 0x1F10C), (0x1FBF0, 0x1FBF9), (0x20000, 0x2A6DF), (0x2A700, 0x2B738),
    (0x2B740, 0x2B81D), (0x2B820, 0x2CEA1), (0x2CEB0, 0x2EBE0), (0x2F800, 0x2FA1D), (0x30000, 0x3134A)]"

definition isalnum :: "nat \<Rightarrow> bool" where
  "isalnum c =
    (if c < 0x80 then in_ranges c ascii_alnum_ranges
     else if c < 0x7C0 then in_ranges c alnum_ranges_00AA
     else if c < 0xA66 then in_ranges c alnum_ranges_07C0
     else if c < 0xC3D then in_ranges c alnum_ranges_0A66
     else if c < 0xEA5 then in_ranges c alnum_ranges_0C3D
     else if c < 0x12D8 then in_ranges c alnum_ranges_0EA5
     else if c < 0x1B45 then in_ranges c alnum_ranges_12D8
     else if c < 0x210A then in_ranges c alnum_ranges_1B45
     else if c < 0x30A1 then in_ranges c alnum_ranges_210A
     else if c < 0xA984 then in_ranges c alnum_ranges_30A1
     else if c < 0xFB40 then in_ranges c alnum_ranges_A984
     else if c < 0x104D8 then in_ranges c alnum_ranges_FB40
     else if c < 0x10AC9 then in_ranges c alnum_ranges_104D8
     else if c < 0x11213 then in_ranges c alnum_ranges_10AC9
     else if c < 0x1190C then in_ranges c alnum_ranges_11213
     else if c < 0x14400 then in_ranges c alnum_ranges_1190C
     else if c < 0x1D4A9 then in_ranges c alnum_ranges_14400
     else if c < 0x1E900 then in_ranges c alnum_ranges_1D4A9
     else if c < 0x1EEAB then in_ranges c alnum_ranges_1E900
     else in_ranges c alnum_ranges_1EEAB)"

text \<open>\<open>s.strip()\<close>: drop the leading and the trailing whitespace.\<close>

definition strip :: "pystr \<Rightarrow> pystr" where
  "strip s = rev (dropWhile isspace (rev (dropWhile isspace s)))"

text \<open>\<open>s.replace(old, new)\<close> where \<open>old\<close> and \<open>new\<close> are one character each.\<close>

definition replace_char :: "nat \<Rightarrow> nat \<Rightarrow> pystr \<Rightarrow> pystr" where
  "replace_char old new s = map (\<lambda>c. if c = old then new else c) s"

section \<open>Filename derivation (main, step 4)\<close>

text \<open>
  \<^verbatim>\<open>file_name = "".join(c if c.isalnum() or c in " _-" else "_" for c in user_text)\<close>
  \<^verbatim>\<open>file_name = file_name.replace(" ", "_")\<close>
\<close>

definition keep_char :: "nat \<Rightarrow> nat" where
  "keep_char c = (if isalnum c \<or> c \<in> set (str '' _-'') then c else 0x5F)"

definition derive_file_name :: "pystr \<Rightarrow> pystr" where
  "derive_file_name user_text = replace_char 0x20 0x5F (map keep_char user_text)"

text \<open>The character class \<open>[A-Za-z0-9_-]\<close>.\<close>

definition ascii_safe :: "nat \<Rightarrow> bool" where
  "ascii_safe c = (in_ranges c ascii_alnum_ranges \<or> c = 0x5F \<or> c = 0x2D)"

section \<open>Percent-encoding of the caption (get_cat_image)\<close>

text \<open>
  The exceptions the modelled calls raise; all of them derive from \<open>Exception\<close>, which is
  what every handler of the program catches.
\<close>

datatype exn = UnicodeEncodeError | RequestException | HTTPError nat | JSONDecodeError
  | KeyError | TypeError | AttributeError | OSError

text \<open>
  \<open>s.encode('utf-8', 'strict')\<close>: one to four bytes per code point; a surrogate
  (U+D800 to U+DFFF) cannot be encoded and raises \<open>UnicodeEncodeError\<close>.
\<close>

definition utf8_char :: "nat \<Rightarrow> pybytes option" where
  "utf8_char c =
    (if c < 0x80 then Some [c]
     else if c < 0x800 then Some [0xC0 + c div 0x40, 0x80 + c mod 0x40]
     else if c < 0x10000 then
       (if 0xD800 \<le> c \<and> c \<le> 0xDFFF then None
        else Some [0xE0 + c div 0x1000, 0x80 + (c div 0x40) mod 0x40, 0x80 + c mod 0x40])
     else if c < 0x110000 then
       Some [0xF0 + c div 0x40000, 0x80 + (c div 0x1000) mod 0x40,
             0x80 + (c div 0x40) mod 0x40, 0x80 + c mod 0x40]
     else None)"

fun utf8_encode :: "pystr \<Rightarrow> pybytes option" where
  "utf8_encode [] = Some []"
| "utf8_encode (c # cs) =
    (case utf8_char c of
       None \<Rightarrow> None
     | Some bs \<Rightarrow> (case utf8_encode cs of None \<Rightarrow> None | Some r \<Rightarrow> Some (bs @ r)))"

text \<open>
  \<open>urllib.parse.quote(text)\<close> with its defaults (\<open>safe='/'\<close>, UTF-8, strict): the empty
  string is returned as it is; otherwise the string is encoded and every byte outside the
  always-safe set and \<open>safe\<close> is written as \<open>%XX\<close> with two upper-case hexadecimal digits.
\<close>

definition always_safe :: pystr where
  "always_safe =
     str ''ABCDEFGHIJKLMNOPQRSTUVWXYZabcdefghijklmnopqrstuvwxyz0123456789_.-~''"

definition safe_byte :: "nat \<Rightarrow> bool" where
  "safe_byte b = (b \<in> set always_safe \<or> b \<in> set (str ''/''))"

definition hex_digit :: "nat \<Rightarrow> nat" where
  "hex_digit d = (if d < 10 then 0x30 + d else 0x37 + d)"

definition quoter :: "nat \<Rightarrow> pystr" where
  "quoter b = (if safe_byte b then [b] else [0x25, hex_digit (b div 16), hex_digit (b mod 16)])"

definition quote_from_bytes :: "pybytes \<Rightarrow> pystr" where
  "quote_from_bytes bs = (if list_all safe_byte bs then bs else concat (map quoter bs))"

definition quote :: "pystr \<Rightarrow> exn + pystr" where
  "quote string =
    (if string = [] then Inr string
     else case utf8_encode string of
            None \<Rightarrow> Inl UnicodeEncodeError
          | Some bs \<Rightarrow> Inr (quote_from_bytes bs))"

text \<open>
  The decoder the round trip is stated against: percent-decoding to bytes (a \<open>%\<close> not
  followed by two hexadecimal digits stands for itself), then strict UTF-8 decoding, which
  rejects stray continuation bytes, overlong forms, surrogates and values above U+10FFFF.
\<close>

definition hex_val :: "nat \<Rightarrow> nat option" where
  "hex_val c =
    (if 0x30 \<le> c \<and> c \<le> 0x39 then Some (c - 0x30)
     else if 0x41 \<le> c \<and> c \<le> 0x46 then Some (c - 0x37)
     else if 0x61 \<le> c \<and> c \<le> 0x66 then Some (c - 0x57)
     else None)"

fun unquote_to_bytes :: "pystr \<Rightarrow> pybytes" where
  "unquote_to_bytes [] = []"
| "unquote_to_bytes [c] = [c]"
| "unquote_to_bytes [c, d] = [c, d]"
| "unquote_to_bytes (c # h # l # rest) =
    (if c = 0x25 then
       (case (hex_val h, hex_val l) of
          (Some a, Some b) \<Rightarrow> (16 * a + b) # unquote_to_bytes rest
        | _ \<Rightarrow> c # unquote_to_bytes (h # l # rest))
     else c # unquote_to_bytes (h # l # rest))"

definition is_cont :: "nat \<Rightarrow> bool" where
  "is_cont b = (0x80 \<le> b \<and> b < 0xC0)"

fun utf8_decode :: "pybytes \<Rightarrow> pystr option" where
  "utf8_decode [] = Some []"
| "utf8_decode (b # bs) =
    (if b < 0x80 then map_option ((#) b) (utf8_decode bs)
     else if 0xC0 \<le> b \<and> b < 0xE0 then
       (case bs of
          b1 # r \<Rightarrow>
            (let c = (b - 0xC0) * 0x40 + (b1 - 0x80) in
             if is_cont b1 \<and> 0x80 \<le> c then map_option ((#) c) (utf8_decode r) else None)
        | _ \<Rightarrow> None)
     else if 0xE0 \<le> b \<and> b < 0xF0 then
       (case bs of
          b1 # b2 # r \<Rightarrow>
            (let c = (b - 0xE0) * 0x1000 + (b1 - 0x80) * 0x40 + (b2 - 0x80) in
             if is_cont b1 \<and> is_cont b2 \<and> 0x800 \<le> c \<and> \<not> (0xD800 \<le> c \<and> c \<le> 0xDFFF)
             then map_option ((#) c) (utf8_decode r) else None)
        | _ \<Rightarrow> None)
     else if 0xF0 \<le> b \<and> b < 0xF8 then
       (case bs of
          b1 # b2 # b3 # r \<Rightarrow>
            (let c = (b - 0xF0) * 0x40000 + (b1 - 0x80) * 0x1000 + (b2 - 0x80) * 0x40 + (b3 - 0x80) in
             if is_cont b1 \<and> is_cont b2 \<and> is_cont b3 \<and> 0x10000 \<le> c \<and> c < 0x110000
             then map_option ((#) c) (utf8_decode r) else None)
        | _ \<Rightarrow> None)
     else None)"

definition unquote :: "pystr \<Rightarrow> pystr option" where
  "unquote s = utf8_decode (unquote_to_bytes s)"

text \<open>A Unicode scalar value: a code point up to U+10FFFF that is not a surrogate.\<close>

definition scalar_value :: "nat \<Rightarrow> bool" where
  "scalar_value c = (c < 0x110000 \<and> \<not> (0xD800 \<le> c \<and> c \<le> 0xDFFF))"

section \<open>The outside world\<close>

text \<open>
  JSON values as \<open>json.load\<close> returns them and \<open>json.dump\<close> writes them. A float is kept
  as mantissa and binary exponent; a \<open>dict\<close> as its items in insertion order.
\<close>

datatype json = JNull | JBool bool | JInt int | JFloat int int | JStr pystr
  | JList "json list" | JDict "(pystr \<times> json) list"

text \<open>
  A call through \<open>requests\<close> either raises (connection error, timeout, invalid URL) or
  returns a response with a status code and a body.
\<close>

datatype 'a reply = NoReply | Reply nat 'a

text \<open>
  The log file \<open>result.json\<close> as the logger meets it: absent, present but not openable,
  present with contents \<open>json.load\<close> rejects, or present with contents that parse to a value.
  Writing back either succeeds, fails at \<open>open(filename, 'w')\<close> (the file is left as it
  was) or fails during \<open>json.dump\<close> (the file has been truncated and holds a fragment).
\<close>

datatype log_file = Absent | Unreadable | Corrupt | Parsed json

datatype write_outcome = WriteOk | OpenFails | DumpFails

text \<open>
  What the environment answers to each call of one run. \<open>put_folder\<close> and
  \<open>get_upload_link\<close> take the token and the \<open>path\<close> parameter and give the body as
  \<open>response.json()\<close> reads it (\<open>None\<close> when that raises); \<open>put_data\<close> takes the
  upload link and the payload. \<open>mb_of n\<close> stands for \<open>round(n / (1024 * 1024), 2)\<close>, whose
  floating-point arithmetic is left to the environment, and \<open>now_iso\<close> for
  \<open>datetime.datetime.now().isoformat()\<close>.
\<close>

record env =
  get_image :: "pystr \<Rightarrow> pybytes reply"
  put_folder :: "pystr \<Rightarrow> pystr \<Rightarrow> json option reply"
  get_upload_link :: "pystr \<Rightarrow> pystr \<Rightarrow> json option reply"
  put_data :: "json \<Rightarrow> pybytes \<Rightarrow> unit reply"
  now_iso :: pystr
  mb_of :: "nat \<Rightarrow> json"
  log_file :: log_file
  log_write :: write_outcome

text \<open>
  The messages shown to the operator: one constructor per \<open>print\<close> of the source and one
  per prompt of \<open>input\<close>.
\<close>

datatype msg =
    Rule | Title | AskText | AskToken | AskGroup | AllFieldsRequired
  | LoadingImage | ImageReceived | ImageError | NoImage
  | FolderReady pystr | FolderRejected json | FolderError | NoFolder
  | GettingLink | Uploading pystr | Uploaded | UploadError
  | Saved | SaveError exn
  | BlankRule | Finished | CheckHeading | CheckItem nat

text \<open>What a run does that can be observed from outside, in order.\<close>

datatype event =
    Print msg
  | Input msg
  | GetImage pystr
  | PutFolder pystr pystr
  | GetUploadLink pystr pystr
  | PutData json pybytes
  | Progress nat
  | ReadLog
  | WriteLog

fun is_network :: "event \<Rightarrow> bool" where
  "is_network (GetImage _) = True"
| "is_network (PutFolder _ _) = True"
| "is_network (GetUploadLink _ _) = True"
| "is_network (PutData _ _) = True"
| "is_network _ = False"

fun is_upload_call :: "event \<Rightarrow> bool" where
  "is_upload_call (GetUploadLink _ _) = True"
| "is_upload_call (PutData _ _) = True"
| "is_upload_call _ = False"

fun is_after_fetch :: "event \<Rightarrow> bool" where
  "is_after_fetch (PutFolder _ _) = True"
| "is_after_fetch (GetUploadLink _ _) = True"
| "is_after_fetch (PutData _ _) = True"
| "is_after_fetch ReadLog = True"
| "is_after_fetch WriteLog = True"
| "is_after_fetch _ = False"

text \<open>\<open>response.raise_for_status()\<close> raises for the statuses 400 to 599 and no others.\<close>

definition raise_for_status :: "nat \<Rightarrow> bool" where
  "raise_for_status status = (400 \<le> status \<and> status < 600)"

section \<open>get_cat_image\<close>

text \<open>
  The result is the body of the response, or \<open>None\<close> when anything in the \<open>try\<close> block
  raised: \<open>quote\<close>, the request, or \<open>raise_for_status\<close>.
\<close>

definition cat_url :: "pystr \<Rightarrow> exn + pystr" where
  "cat_url text =
    (case quote text of
       Inl e \<Rightarrow> Inl e
     | Inr encoded_text \<Rightarrow> Inr (str ''https://cataas.com/cat/says/'' @ encoded_text))"

definition get_cat_image :: "env \<Rightarrow> pystr \<Rightarrow> pybytes option \<times> event list" where
  "get_cat_image env text =
    (case cat_url text of
       Inl e \<Rightarrow> (None, [Print ImageError])
     | Inr url \<Rightarrow>
         (case get_image env url of
            NoReply \<Rightarrow> (None, [Print LoadingImage, GetImage url, Print ImageError])
          | Reply status content \<Rightarrow>
              if raise_for_status status
              then (None, [Print LoadingImage, GetImage url, Print ImageError])
              else (Some content, [Print LoadingImage, GetImage url, Print ImageReceived])))"

section \<open>create_yandex_folder\<close>

definition create_yandex_folder :: "env \<Rightarrow> pystr \<Rightarrow> pystr \<Rightarrow> bool \<times> event list" where
  "create_yandex_folder env token folder_name =
    (case put_folder env token folder_name of
       NoReply \<Rightarrow> (False, [PutFolder token folder_name, Print FolderError])
     | Reply status body \<Rightarrow>
         if status \<in> set [201, 409]
         then (True, [PutFolder token folder_name, Print (FolderReady folder_name)])
         else (case body of
                 None \<Rightarrow> (False, [PutFolder token folder_name, Print FolderError])
               | Some j \<Rightarrow> (False, [PutFolder token folder_name, Print (FolderRejected j)])))"

section \<open>upload_to_yandex\<close>

text \<open>
  \<open>response.json()["href"]\<close>: the value under the key \<open>href\<close> when the body parses to a
  \<open>dict\<close> that has it; otherwise the expression raises.
\<close>

fun href_of :: "json option \<Rightarrow> json option" where
  "href_of (Some (JDict items)) = map_of items (str ''href'')"
| "href_of _ = None"

text \<open>
  The response to the \<open>PUT\<close> of the payload is bound to \<open>response\<close> and not looked at
  again: the function reports success whenever the call returns.
\<close>

definition upload_to_yandex ::
  "env \<Rightarrow> pystr \<Rightarrow> pystr \<Rightarrow> pystr \<Rightarrow> pybytes \<Rightarrow> (bool \<times> pystr option) \<times> event list" where
  "upload_to_yandex env token folder_name file_name image_data =
    (let full_path = folder_name @ str ''/'' @ file_name @ str ''.jpg'';
         asked = [Print GettingLink, GetUploadLink token full_path]
     in case get_upload_link env token full_path of
          NoReply \<Rightarrow> ((False, None), asked @ [Print UploadError])
        | Reply status body \<Rightarrow>
            if raise_for_status status then ((False, None), asked @ [Print UploadError])
            else (case href_of body of
                    None \<Rightarrow> ((False, None), asked @ [Print UploadError])
                  | Some upload_href \<Rightarrow>
                      (case put_data env upload_href image_data of
                         NoReply \<Rightarrow>
                           ((False, None),
                            asked @ [Print (Uploading file_name), PutData upload_href image_data,
                                     Print UploadError])
                       | Reply put_status u \<Rightarrow>
                           ((True, Some full_path),
                            asked @ [Print (Uploading file_name), PutData upload_href image_data,
                                     Progress (length image_data), Print Uploaded]))))"

section \<open>save_to_json\<close>

text \<open>
  The body of the \<open>try\<close> block: the exception it raises or unit, the file afterwards, and
  what it did. A parsed value that is not a list has no \<open>append\<close>.
\<close>

definition save_to_json_try ::
  "json \<Rightarrow> log_file \<Rightarrow> write_outcome \<Rightarrow> (exn + unit) \<times> log_file \<times> event list" where
  "save_to_json_try data file w =
    (let loaded =
           (case file of
              Absent \<Rightarrow> (Inr (JList []), [])
            | Unreadable \<Rightarrow> (Inl OSError, [ReadLog])
            | Corrupt \<Rightarrow> (Inl JSONDecodeError, [ReadLog])
            | Parsed v \<Rightarrow> (Inr v, [ReadLog]))
     in case loaded of
          (Inl e, evs) \<Rightarrow> (Inl e, file, evs)
        | (Inr (JList existing_data), evs) \<Rightarrow>
            (case w of
               WriteOk \<Rightarrow>
                 (Inr (), Parsed (JList (existing_data @ [data])), evs @ [WriteLog, Print Saved])
             | OpenFails \<Rightarrow> (Inl OSError, file, evs @ [WriteLog])
             | DumpFails \<Rightarrow> (Inl OSError, Corrupt, evs @ [WriteLog]))
        | (Inr _, evs) \<Rightarrow> (Inl AttributeError, file, evs))"

text \<open>The handler prints the exception; nothing is raised to the caller.\<close>

definition save_to_json :: "json \<Rightarrow> log_file \<Rightarrow> write_outcome \<Rightarrow> log_file \<times> event list" where
  "save_to_json data file w =
    (case save_to_json_try data file w of
       (Inl e, file', evs) \<Rightarrow> (file', evs @ [Print (SaveError e)])
     | (Inr u, file', evs) \<Rightarrow> (file', evs))"

section \<open>main\<close>

text \<open>The \<open>return\<close> statement a run leaves \<open>main\<close> through.\<close>

datatype outcome = ReturnedAtInput | ReturnedAtFetch | ReturnedAtFolder | ReturnedAtEnd

record run =
  outcome :: outcome
  trace :: "event list"
  final_log :: log_file

text \<open>The record \<open>file_info\<close> that a successful upload hands to the logger.\<close>

definition file_info :: "env \<Rightarrow> pystr \<Rightarrow> pystr \<Rightarrow> pybytes \<Rightarrow> pystr \<Rightarrow> pystr option \<Rightarrow> json" where
  "file_info env user_text file_name image_data group_name file_path =
    JDict [
      (str ''date'', JStr (now_iso env)),
      (str ''text'', JStr user_text),
      (str ''file_name'', JStr (file_name @ str ''.jpg'')),
      (str ''file_size_bytes'', JInt (int (length image_data))),
      (str ''file_size_mb'', mb_of env (length image_data)),
      (str ''folder'', JStr group_name),
      (str ''yandex_path'', (case file_path of None \<Rightarrow> JNull | Some p \<Rightarrow> JStr p)),
      (str ''status'', JStr (str ''uploaded''))]"

text \<open>What every run starts with: the banner and the three prompts.\<close>

definition header :: "event list" where
  "header = [Print Rule, Print Title, Print Rule, Input AskText, Input AskToken, Input AskGroup]"

text \<open>What a run that reaches the end of \<open>main\<close> finishes with.\<close>

definition footer :: "event list" where
  "footer = [Print BlankRule, Print Finished, Print Rule, Print CheckHeading,
             Print (CheckItem 1), Print (CheckItem 2), Print (CheckItem 3)]"

text \<open>
  \<open>main\<close> on the three lines the operator types. \<open>if not image_data\<close> holds for \<open>None\<close>
  and for the empty \<open>bytes\<close>.
\<close>

definition main :: "env \<Rightarrow> pystr \<Rightarrow> pystr \<Rightarrow> pystr \<Rightarrow> run" where
  "main env line1 line2 line3 =
    (let user_text = strip line1;
         yandex_token = strip line2;
         group_name = strip line3
     in if user_text = [] \<or> yandex_token = [] \<or> group_name = []
        then \<lparr>outcome = ReturnedAtInput, trace = header @ [Print AllFieldsRequired],
              final_log = log_file env\<rparr>
        else
          (case get_cat_image env user_text of
             (fetched, ev1) \<Rightarrow>
               (case (case fetched of None \<Rightarrow> None | Some d \<Rightarrow> if d = [] then None else Some d) of
                  None \<Rightarrow>
                    \<lparr>outcome = ReturnedAtFetch, trace = header @ ev1 @ [Print NoImage],
                     final_log = log_file env\<rparr>
                | Some image_data \<Rightarrow>
                    (case create_yandex_folder env yandex_token group_name of
                       (created, ev2) \<Rightarrow>
                         if \<not> created
                         then \<lparr>outcome = ReturnedAtFolder,
                               trace = header @ ev1 @ ev2 @ [Print NoFolder],
                               final_log = log_file env\<rparr>
                         else
                           (let file_name = derive_file_name user_text
                            in case upload_to_yandex env yandex_token group_name file_name image_data of
                                 ((success, file_path), ev3) \<Rightarrow>
                                   (case (if success
                                          then save_to_json
                                                 (file_info env user_text file_name image_data
                                                    group_name file_path)
                                                 (log_file env) (log_write env)
                                          else (log_file env, [])) of
                                      (file', ev4) \<Rightarrow>
                                        \<lparr>outcome = ReturnedAtEnd,
                                         trace = header @ ev1 @ ev2 @ ev3 @ ev4 @ footer,
                                         final_log = file'\<rparr>))))))"

section \<open>Sample environments\<close>

text \<open>
  An environment in which every call succeeds: the image service returns three bytes, the
  folder is created, the storage hands out an upload link and accepts the payload, and
  there is no log file yet. The theorems at concrete inputs vary it field by field.
\<close>

definition ok_env :: env where
  "ok_env =
    \<lparr>get_image = (\<lambda>url. Reply 200 [0xFF, 0xD8, 0xFF]),
     put_folder = (\<lambda>token path. Reply 201 None),
     get_upload_link =
       (\<lambda>token path. Reply 200 (Some (JDict [(str ''href'', JStr (str ''https://up/1''))]))),
     put_data = (\<lambda>href data. Reply 201 ()),
     now_iso = str ''2024-05-01T12:00:00'',
     mb_of = (\<lambda>n. JFloat 0 0),
     log_file = Absent,
     log_write = WriteOk\<rparr>"

section \<open>Properties of the filename derivation\<close>

lemma set_str_keep: "set (str '' _-'') = {0x20, 0x5F, 0x2D}"
  by (auto simp: str_def)

lemma derive_file_name_map:
  "derive_file_name t = map (\<lambda>c. if keep_char c = 0x20 then 0x5F else keep_char c) t"
  by (simp add: derive_file_name_def replace_char_def)

lemma keep_char_cases: "keep_char c = c \<and> (isalnum c \<or> c = 0x20 \<or> c = 0x5F \<or> c = 0x2D) \<or> keep_char c = 0x5F"
  by (auto simp: keep_char_def set_str_keep)

lemma keep_char_underscore: "keep_char 0x5F = 0x5F"
  by (simp add: keep_char_def)

lemma keep_char_fix: "keep_char (keep_char c) = keep_char c"
  by (simp add: keep_char_def)

lemma isalnum_ascii: "c < 0x80 \<Longrightarrow> isalnum c = in_ranges c ascii_alnum_ranges"
  by (simp add: isalnum_def)

lemma not_isalnum_space: "\<not> isalnum 0x20"
  by (simp add: isalnum_def ascii_alnum_ranges_def)

lemma in_derive_file_name:
  assumes "c \<in> set (derive_file_name t)"
  obtains d where "d \<in> set t" and "c = (if keep_char d = 0x20 then 0x5F else keep_char d)"
proof -
  from assms have "c \<in> (\<lambda>c. if keep_char c = 0x20 then 0x5F else keep_char c) ` set t"
    by (simp only: derive_file_name_map set_map)
  then show thesis by (rule imageE) (rule that)
qed

text \<open>
  Claim C2, as the code has it. Every character of the derived file name is alphanumeric
  in the sense of \<open>str.isalnum\<close>, an underscore or a hyphen, and never a space; when the
  caption is ASCII the name lies within \<open>[A-Za-z0-9_-]\<close>. The name is obtained by
  replacing each character that is not alphanumeric, space, hyphen or underscore with an
  underscore and then each space with an underscore.
\<close>

theorem derive_file_name_chars:
  "(\<forall>c \<in> set (derive_file_name t). (isalnum c \<or> c = 0x5F \<or> c = 0x2D) \<and> c \<noteq> 0x20)
   \<and> ((\<forall>c \<in> set t. c < 0x80) \<longrightarrow> (\<forall>c \<in> set (derive_file_name t). ascii_safe c))
   \<and> derive_file_name t =
       map (\<lambda>c. if c = 0x20 then 0x5F else c)
         (map (\<lambda>c. if isalnum c \<or> c = 0x20 \<or> c = 0x5F \<or> c = 0x2D then c else 0x5F) t)"
proof (intro conjI)
  show "\<forall>c \<in> set (derive_file_name t). (isalnum c \<or> c = 0x5F \<or> c = 0x2D) \<and> c \<noteq> 0x20"
  proof
    fix c assume "c \<in> set (derive_file_name t)"
    then obtain d where "c = (if keep_char d = 0x20 then 0x5F else keep_char d)"
      by (rule in_derive_file_name)
    then show "(isalnum c \<or> c = 0x5F \<or> c = 0x2D) \<and> c \<noteq> 0x20"
      using keep_char_cases [of d] by (auto split: if_splits)
  qed
next
  show "(\<forall>c \<in> set t. c < 0x80) \<longrightarrow> (\<forall>c \<in> set (derive_file_name t). ascii_safe c)"
  proof (intro impI ballI)
    fix c assume a: "\<forall>c \<in> set t. c < 0x80" and c: "c \<in> set (derive_file_name t)"
    from c obtain d where d: "d \<in> set t" and cd: "c = (if keep_char d = 0x20 then 0x5F else keep_char d)"
      by (rule in_derive_file_name)
    from a d have "d < 0x80" by blast
    then have "isalnum d = in_ranges d ascii_alnum_ranges" by (rule isalnum_ascii)
    then show "ascii_safe c"
      using cd by (auto simp: ascii_safe_def keep_char_def set_str_keep)
  qed
next
  show "derive_file_name t =
       map (\<lambda>c. if c = 0x20 then 0x5F else c)
         (map (\<lambda>c. if isalnum c \<or> c = 0x20 \<or> c = 0x5F \<or> c = 0x2D then c else 0x5F) t)"
    by (simp add: derive_file_name_def replace_char_def keep_char_def set_str_keep)
qed

text \<open>
  The caption \<open>Hello World!\<close> of the specification's scenario gives \<open>Hello_World_\<close>.
\<close>

theorem derive_file_name_chars_witness:
  "list_all (\<lambda>c. c < 0x80) (str ''Hello World!'')
   \<and> derive_file_name (str ''Hello World!'') = str ''Hello_World_''
   \<and> list_all ascii_safe (derive_file_name (str ''Hello World!''))"
  using derive_file_name_chars [of "str ''Hello World!''"]
  by (simp add: str_def derive_file_name_def replace_char_def keep_char_def isalnum_def ascii_safe_def ascii_alnum_ranges_def)

text \<open>
  Claim C2 as stated fails: \<open>isalnum\<close> holds of Cyrillic letters, so a Russian caption
  (the prompt of \<open>main\<close> invites one) is kept as it is, outside \<open>[A-Za-z0-9_-]\<close>.
\<close>

theorem derive_file_name_cyrillic:
  "derive_file_name [0x41F, 0x440, 0x438, 0x432, 0x435, 0x442] = [0x41F, 0x440, 0x438, 0x432, 0x435, 0x442]
   \<and> \<not> ascii_safe 0x41F"
  by (simp add: derive_file_name_def replace_char_def keep_char_def isalnum_def alnum_ranges_00AA_def
      ascii_safe_def ascii_alnum_ranges_def)

text \<open>
  Claim C7. Filename derivation is idempotent: deriving a name from a derived name gives
  that name again.
\<close>

theorem derive_file_name_idem: "derive_file_name (derive_file_name t) = derive_file_name t"
proof -
  have "(if keep_char (if keep_char c = 0x20 then 0x5F else keep_char c) = 0x20 then 0x5F
         else keep_char (if keep_char c = 0x20 then 0x5F else keep_char c))
        = (if keep_char c = 0x20 then 0x5F else keep_char c)" for c
    by (simp add: keep_char_fix keep_char_underscore)
  then show ?thesis by (simp add: derive_file_name_map)
qed

text \<open>
  Claim C10. Filename derivation preserves the length: the derived name has as many
  characters as the caption, and is empty only for the empty caption.
\<close>

theorem derive_file_name_length:
  "length (derive_file_name t) = length t \<and> (derive_file_name t = [] \<longleftrightarrow> t = [])"
  by (simp add: derive_file_name_def replace_char_def)

section \<open>Properties of the percent-encoding\<close>

lemma utf8_char_bytes: "utf8_char c = Some bs \<Longrightarrow> list_all (\<lambda>b. b < 256) bs"
  by (auto simp: utf8_char_def split: if_splits)

text \<open>A code point is the sum of its six-bit digits.\<close>

lemma radix_step: "(d::nat) div 0x40 * (0x40 * k) + d mod 0x40 * k = d * k"
proof -
  have "d * k = (d div 0x40 * 0x40 + d mod 0x40) * k" by simp
  also have "\<dots> = d div 0x40 * (0x40 * k) + d mod 0x40 * k"
    by (simp only: add_mult_distrib mult.assoc)
  finally show ?thesis by (rule sym)
qed

lemma split3: "(c::nat) div 0x1000 * 0x1000 + (c div 0x40) mod 0x40 * 0x40 + c mod 0x40 = c"
proof -
  have 1: "c div 0x1000 = c div 0x40 div 0x40"
    using div_mult2_eq [of c "0x40" "0x40"] by simp
  have "c div 0x40 div 0x40 * 0x1000 + (c div 0x40) mod 0x40 * 0x40 = c div 0x40 * 0x40"
    using radix_step [of "c div 0x40" "0x40"] by simp
  then show ?thesis by (simp add: 1)
qed

lemma split4: "(c::nat) div 0x40000 * 0x40000 + (c div 0x1000) mod 0x40 * 0x1000
        + (c div 0x40) mod 0x40 * 0x40 + c mod 0x40 = c"
proof -
  have 1: "c div 0x40000 = c div 0x1000 div 0x40"
    using div_mult2_eq [of c "0x1000" "0x40"] by simp
  have "c div 0x1000 div 0x40 * 0x40000 + (c div 0x1000) mod 0x40 * 0x1000 = c div 0x1000 * 0x1000"
    using radix_step [of "c div 0x1000" "0x1000"] by simp
  then have "c div 0x40000 * 0x40000 + (c div 0x1000) mod 0x40 * 0x1000
        + (c div 0x40) mod 0x40 * 0x40 + c mod 0x40
      = c div 0x1000 * 0x1000 + (c div 0x40) mod 0x40 * 0x40 + c mod 0x40"
    by (simp only: 1)
  also have "\<dots> = c" by (rule split3)
  finally show ?thesis .
qed

text \<open>Decoding the two-, three- and four-byte forms, stated on the six-bit digits.\<close>

lemma utf8_decode2:
  assumes "2 \<le> q" "q < 0x20" "r < 0x40"
  shows "utf8_decode ([0xC0 + q, 0x80 + r] @ rest) = map_option ((#) (q * 0x40 + r)) (utf8_decode rest)"
  using assms by (simp add: is_cont_def)

lemma utf8_decode3:
  assumes "q < 0x10" "r < 0x40" "s < 0x40" "0x800 \<le> q * 0x1000 + r * 0x40 + s"
    "\<not> (0xD800 \<le> q * 0x1000 + r * 0x40 + s \<and> q * 0x1000 + r * 0x40 + s \<le> 0xDFFF)"
  shows "utf8_decode ([0xE0 + q, 0x80 + r, 0x80 + s] @ rest)
    = map_option ((#) (q * 0x1000 + r * 0x40 + s)) (utf8_decode rest)"
  using assms by (simp add: is_cont_def)

lemma utf8_decode4:
  assumes "q < 8" "r < 0x40" "s < 0x40" "t < 0x40" "0x10000 \<le> q * 0x40000 + r * 0x1000 + s * 0x40 + t"
    "q * 0x40000 + r * 0x1000 + s * 0x40 + t < 0x110000"
  shows "utf8_decode ([0xF0 + q, 0x80 + r, 0x80 + s, 0x80 + t] @ rest)
    = map_option ((#) (q * 0x40000 + r * 0x1000 + s * 0x40 + t)) (utf8_decode rest)"
  using assms by (simp add: is_cont_def)

lemma utf8_decode_char:
  assumes "utf8_char c = Some bs"
  shows "utf8_decode (bs @ rest) = map_option ((#) c) (utf8_decode rest)"
proof -
  consider (one) "c < 0x80" | (two) "0x80 \<le> c" "c < 0x800"
    | (three) "0x800 \<le> c" "c < 0x10000" "\<not> (0xD800 \<le> c \<and> c \<le> 0xDFFF)"
    | (four) "0x10000 \<le> c" "c < 0x110000"
    using assms by (auto simp: utf8_char_def split: if_splits)
  then show ?thesis
  proof cases
    case one
    with assms show ?thesis by (auto simp: utf8_char_def)
  next
    case two
    with assms have bs: "bs = [0xC0 + c div 0x40, 0x80 + c mod 0x40]"
      by (auto simp: utf8_char_def)
    have c: "c div 0x40 * 0x40 + c mod 0x40 = c" by simp
    have "2 \<le> c div 0x40" "c div 0x40 < 0x20" "c mod 0x40 < 0x40"
      using two by (simp_all add: less_mult_imp_div_less less_eq_div_iff_mult_less_eq)
    from utf8_decode2 [OF this, of rest] show ?thesis unfolding bs c .
  next
    case three
    with assms have bs: "bs = [0xE0 + c div 0x1000, 0x80 + (c div 0x40) mod 0x40, 0x80 + c mod 0x40]"
      by (auto simp: utf8_char_def)
    note c = split3 [of c]
    have "c div 0x1000 < 0x10" "(c div 0x40) mod 0x40 < 0x40" "c mod 0x40 < 0x40"
      using three by (simp_all add: less_mult_imp_div_less)
    from utf8_decode3 [OF this, of rest, unfolded c] three show ?thesis unfolding bs by simp
  next
    case four
    with assms have bs: "bs = [0xF0 + c div 0x40000, 0x80 + (c div 0x1000) mod 0x40,
             0x80 + (c div 0x40) mod 0x40, 0x80 + c mod 0x40]"
      by (auto simp: utf8_char_def)
    note c = split4 [of c]
    have "c div 0x40000 < 8" "(c div 0x1000) mod 0x40 < 0x40" "(c div 0x40) mod 0x40 < 0x40"
      "c mod 0x40 < 0x40"
      using four by (simp_all add: less_mult_imp_div_less)
    from utf8_decode4 [OF this, of rest, unfolded c] four show ?thesis unfolding bs by simp
  qed
qed



text \<open>Percent-decoding undoes \<open>quoter\<close> byte by byte.\<close>

lemma safe_byte_percent: "\<not> safe_byte 0x25"
  by (simp add: safe_byte_def always_safe_def str_def)

lemma hex_digit_cases:
  assumes "d < 16"
  shows "hex_digit d \<in> set (str ''0123456789ABCDEF'')"
proof (cases "d < 8")
  case True
  then have "d = 0 \<or> d = 1 \<or> d = 2 \<or> d = 3 \<or> d = 4 \<or> d = 5 \<or> d = 6 \<or> d = 7" by arith
  then show ?thesis by (auto simp: hex_digit_def str_def)
next
  case False
  with assms have "d = 8 \<or> d = 9 \<or> d = 10 \<or> d = 11 \<or> d = 12 \<or> d = 13 \<or> d = 14 \<or> d = 15"
    by arith
  then show ?thesis by (auto simp: hex_digit_def str_def)
qed

lemma hex_digit_safe: "d < 16 \<Longrightarrow> safe_byte (hex_digit d)"
  using hex_digit_cases [of d] by (auto simp: safe_byte_def always_safe_def str_def)

lemma hex_val_digit: "d < 16 \<Longrightarrow> hex_val (hex_digit d) = Some d"
  by (auto simp: hex_val_def hex_digit_def)

lemma utf8_decode_encode: "utf8_encode s = Some bs \<Longrightarrow> utf8_decode bs = Some s"
proof (induction s arbitrary: bs)
  case Nil
  then show ?case by simp
next
  case (Cons c cs)
  from Cons.prems obtain b r where b: "utf8_char c = Some b" and r: "utf8_encode cs = Some r"
    and bs: "bs = b @ r"
    by (auto split: option.splits)
  from Cons.IH [OF r] have "utf8_decode r = Some cs" .
  with utf8_decode_char [OF b, of r] show ?case by (simp add: bs)
qed

lemma utf8_encode_bytes: "utf8_encode s = Some bs \<Longrightarrow> list_all (\<lambda>b. b < 256) bs"
proof (induction s arbitrary: bs)
  case Nil
  then show ?case by simp
next
  case (Cons c cs)
  from Cons.prems obtain b r where b: "utf8_char c = Some b" and r: "utf8_encode cs = Some r"
    and bs: "bs = b @ r"
    by (auto split: option.splits)
  show ?case using utf8_char_bytes [OF b] Cons.IH [OF r] by (simp add: bs)
qed

lemma utf8_char_defined: "utf8_char c \<noteq> None \<longleftrightarrow> scalar_value c"
  by (auto simp: utf8_char_def scalar_value_def)

lemma utf8_encode_defined: "utf8_encode s \<noteq> None \<longleftrightarrow> list_all scalar_value s"
  by (induction s) (auto simp: utf8_char_defined [symmetric] split: option.splits)

lemma unquote_plain: "c \<noteq> 0x25 \<Longrightarrow> unquote_to_bytes (c # cs) = c # unquote_to_bytes cs"
  by (cases "(c # cs)" rule: unquote_to_bytes.cases) auto

lemma unquote_quoter:
  assumes "b < 256"
  shows "unquote_to_bytes (quoter b @ rest) = b # unquote_to_bytes rest"
proof (cases "safe_byte b")
  case True
  then have "b \<noteq> 0x25" using safe_byte_percent by auto
  with True show ?thesis by (simp add: quoter_def unquote_plain)
next
  case False
  have "b div 16 < 16" using assms by simp
  then have h: "hex_val (hex_digit (b div 16)) = Some (b div 16)" by (rule hex_val_digit)
  have l: "hex_val (hex_digit (b mod 16)) = Some (b mod 16)" by (rule hex_val_digit) simp
  show ?thesis using False by (simp add: quoter_def h l)
qed

lemma unquote_concat_quoter:
  "list_all (\<lambda>b. b < 256) bs \<Longrightarrow> unquote_to_bytes (concat (map quoter bs)) = bs"
  by (induction bs) (simp_all add: unquote_quoter)

lemma unquote_all_safe: "list_all safe_byte bs \<Longrightarrow> unquote_to_bytes bs = bs"
proof (induction bs)
  case Nil
  then show ?case by simp
next
  case (Cons b bs)
  then have "b \<noteq> 0x25" using safe_byte_percent by auto
  with Cons show ?case by (simp add: unquote_plain)
qed

lemma unquote_quote_from_bytes:
  "list_all (\<lambda>b. b < 256) bs \<Longrightarrow> unquote_to_bytes (quote_from_bytes bs) = bs"
  by (simp add: quote_from_bytes_def unquote_all_safe unquote_concat_quoter)

lemma quoter_chars: "b < 256 \<Longrightarrow> list_all (\<lambda>c. safe_byte c \<or> c = 0x25) (quoter b)"
  by (simp add: quoter_def hex_digit_safe)

lemma quote_from_bytes_chars:
  "list_all (\<lambda>b. b < 256) bs \<Longrightarrow> list_all (\<lambda>c. safe_byte c \<or> c = 0x25) (quote_from_bytes bs)"
proof -
  assume a: "list_all (\<lambda>b. b < 256) bs"
  have "list_all (\<lambda>b. b < 256) bs \<Longrightarrow> list_all (\<lambda>c. safe_byte c \<or> c = 0x25) (concat (map quoter bs))"
    by (induction bs) (simp_all add: quoter_chars)
  moreover have "list_all safe_byte bs \<Longrightarrow> list_all (\<lambda>c. safe_byte c \<or> c = 0x25) bs"
    by (induction bs) simp_all
  ultimately show ?thesis using a by (simp add: quote_from_bytes_def)
qed

lemma quote_example: "quote (str ''a b&#/~'' @ [0xE9, 0x41F, 0x20AC, 0x1F600]) = Inr (str ''a%20b%26%23/~%C3%A9%D0%9F%E2%82%AC%F0%9F%98%80'')"
  by (simp add: quote_def str_def utf8_char_def quote_from_bytes_def quoter_def safe_byte_def always_safe_def hex_digit_def)


text \<open>
  Claim C8. Every caption of Unicode scalar values is encoded by \<open>quote\<close>; and whenever
  \<open>quote\<close> returns, its result is what follows \<open>/cat/says/\<close> in the one URL the fetch
  requests, it consists of unreserved characters, \<open>/\<close> and \<open>%\<close> only (so no space,
  \<open>&\<close>, \<open>#\<close> or non-ASCII character is left in it), and decoding it gives the caption
  back.
\<close>

theorem cat_url_roundtrip:
  "(list_all scalar_value text \<longrightarrow> (\<exists>enc. quote text = Inr enc))
   \<and> (\<forall>enc. quote text = Inr enc \<longrightarrow>
          cat_url text = Inr (str ''https://cataas.com/cat/says/'' @ enc)
        \<and> filter is_network (snd (get_cat_image env text))
            = [GetImage (str ''https://cataas.com/cat/says/'' @ enc)]
        \<and> list_all (\<lambda>c. safe_byte c \<or> c = 0x25) enc
        \<and> unquote enc = Some text)"
proof (intro conjI impI allI)
  assume "list_all scalar_value text"
  then have "utf8_encode text \<noteq> None" using utf8_encode_defined by blast
  then show "\<exists>enc. quote text = Inr enc" by (auto simp: quote_def)
next
  fix enc assume q: "quote text = Inr enc"
  show "cat_url text = Inr (str ''https://cataas.com/cat/says/'' @ enc)"
    by (simp add: cat_url_def q)
  then show "filter is_network (snd (get_cat_image env text))
            = [GetImage (str ''https://cataas.com/cat/says/'' @ enc)]"
    by (simp add: get_cat_image_def split: reply.splits)
  show "list_all (\<lambda>c. safe_byte c \<or> c = 0x25) enc"
  proof (cases "text = []")
    case True
    with q show ?thesis by (simp add: quote_def)
  next
    case False
    with q obtain bs where bs: "utf8_encode text = Some bs" and enc: "enc = quote_from_bytes bs"
      by (auto simp: quote_def split: option.splits)
    from utf8_encode_bytes [OF bs] show ?thesis unfolding enc by (rule quote_from_bytes_chars)
  qed
  show "unquote enc = Some text"
  proof (cases "text = []")
    case True
    with q show ?thesis by (simp add: quote_def unquote_def)
  next
    case False
    with q obtain bs where bs: "utf8_encode text = Some bs" and enc: "enc = quote_from_bytes bs"
      by (auto simp: quote_def split: option.splits)
    from utf8_encode_bytes [OF bs] have "unquote_to_bytes enc = bs"
      unfolding enc by (rule unquote_quote_from_bytes)
    with utf8_decode_encode [OF bs] show ?thesis by (simp add: unquote_def)
  qed
qed

text \<open>
  A caption with a space, \<open>&\<close>, \<open>#\<close>, a Latin-1 letter, a Cyrillic letter, the euro sign and
  a character outside the basic plane.
\<close>

theorem cat_url_roundtrip_witness:
  "list_all scalar_value (str ''a b&#/~'' @ [0xE9, 0x41F, 0x20AC, 0x1F600])
   \<and> quote (str ''a b&#/~'' @ [0xE9, 0x41F, 0x20AC, 0x1F600])
       = Inr (str ''a%20b%26%23/~%C3%A9%D0%9F%E2%82%AC%F0%9F%98%80'')
   \<and> unquote (str ''a%20b%26%23/~%C3%A9%D0%9F%E2%82%AC%F0%9F%98%80'')
       = Some (str ''a b&#/~'' @ [0xE9, 0x41F, 0x20AC, 0x1F600])"
proof -
  have s: "list_all scalar_value (str ''a b&#/~'' @ [0xE9, 0x41F, 0x20AC, 0x1F600])"
    by (simp add: scalar_value_def str_def)
  note q = quote_example
  from cat_url_roundtrip [of "str ''a b&#/~'' @ [0xE9, 0x41F, 0x20AC, 0x1F600]" ok_env] q
  have "unquote (str ''a%20b%26%23/~%C3%A9%D0%9F%E2%82%AC%F0%9F%98%80'')
       = Some (str ''a b&#/~'' @ [0xE9, 0x41F, 0x20AC, 0x1F600])"
    by blast
  with s q show ?thesis by blast
qed

section \<open>Properties of the pipeline\<close>

lemma filter_header: "filter is_network header = []" "filter is_upload_call header = []"
  "filter is_after_fetch header = []"
  by (simp_all add: header_def)

lemma filter_footer: "filter is_network footer = []" "filter is_upload_call footer = []"
  "filter is_after_fetch footer = []"
  by (simp_all add: footer_def)

lemma get_cat_image_quiet:
  "filter is_upload_call (snd (get_cat_image env t)) = []"
  "filter is_after_fetch (snd (get_cat_image env t)) = []"
  by (simp_all add: get_cat_image_def split: sum.splits reply.splits)

lemma create_yandex_folder_quiet:
  "filter is_upload_call (snd (create_yandex_folder env tok g)) = []"
  by (simp add: create_yandex_folder_def split: reply.splits option.splits)

lemma save_to_json_quiet: "filter is_network (snd (save_to_json d f w)) = []"
  by (simp add: save_to_json_def save_to_json_try_def
      split: log_file.splits json.splits write_outcome.splits)

text \<open>
  Claim C1 does not hold of the code. The storage hands out an upload link and answers the
  \<open>PUT\<close> of the payload with status 500; \<open>upload_to_yandex\<close> still returns
  \<open>(True, full_path)\<close> and prints the success message. The two \<open>GET\<close> requests of the
  program are followed by \<open>raise_for_status\<close>; the \<open>PUT\<close> is not.
\<close>

theorem upload_ignores_put_status:
  "upload_to_yandex (ok_env\<lparr>put_data := (\<lambda>href data. Reply 500 ())\<rparr>)
      (str ''t'') (str ''group1'') (str ''cat'') [0xFF, 0xD8, 0xFF]
   = ((True, Some (str ''group1/cat.jpg'')),
      [Print GettingLink, GetUploadLink (str ''t'') (str ''group1/cat.jpg''),
       Print (Uploading (str ''cat'')),
       PutData (JStr (str ''https://up/1'')) [0xFF, 0xD8, 0xFF], Progress 3, Print Uploaded])"
  by (simp add: upload_to_yandex_def Let_def ok_env_def raise_for_status_def str_def)

text \<open>The value of \<open>main\<close> at each of its four exits.\<close>

lemma main_at_input:
  assumes "strip line1 = [] \<or> strip line2 = [] \<or> strip line3 = []"
  shows "main env line1 line2 line3 =
    \<lparr>outcome = ReturnedAtInput, trace = header @ [Print AllFieldsRequired],
     final_log = log_file env\<rparr>"
  using assms by (simp add: main_def Let_def)

lemma main_at_fetch:
  assumes "strip line1 \<noteq> []" "strip line2 \<noteq> []" "strip line3 \<noteq> []"
    and "get_cat_image env (strip line1) = (fetched, ev1)"
    and "fetched = None \<or> fetched = Some []"
  shows "main env line1 line2 line3 =
    \<lparr>outcome = ReturnedAtFetch, trace = header @ ev1 @ [Print NoImage],
     final_log = log_file env\<rparr>"
  using assms by (auto simp: main_def Let_def)

lemma main_at_folder:
  assumes "strip line1 \<noteq> []" "strip line2 \<noteq> []" "strip line3 \<noteq> []"
    and "get_cat_image env (strip line1) = (Some d, ev1)" "d \<noteq> []"
    and "create_yandex_folder env (strip line2) (strip line3) = (False, ev2)"
  shows "main env line1 line2 line3 =
    \<lparr>outcome = ReturnedAtFolder, trace = header @ ev1 @ ev2 @ [Print NoFolder],
     final_log = log_file env\<rparr>"
  using assms by (simp add: main_def Let_def)

lemma main_at_end:
  assumes "strip line1 \<noteq> []" "strip line2 \<noteq> []" "strip line3 \<noteq> []"
    and "get_cat_image env (strip line1) = (Some d, ev1)" "d \<noteq> []"
    and "create_yandex_folder env (strip line2) (strip line3) = (True, ev2)"
    and "upload_to_yandex env (strip line2) (strip line3) (derive_file_name (strip line1)) d
          = ((success, path), ev3)"
    and "(if success
          then save_to_json
                 (file_info env (strip line1) (derive_file_name (strip line1)) d (strip line3) path)
                 (log_file env) (log_write env)
          else (log_file env, [])) = (file', ev4)"
  shows "main env line1 line2 line3 =
    \<lparr>outcome = ReturnedAtEnd, trace = header @ ev1 @ ev2 @ ev3 @ ev4 @ footer,
     final_log = file'\<rparr>"
  using assms by (simp add: main_def Let_def)

text \<open>Every run takes one of the four exits.\<close>

lemma main_exits:
  obtains (input) "strip line1 = [] \<or> strip line2 = [] \<or> strip line3 = []"
  | (fetch) fetched ev1 where "strip line1 \<noteq> []" "strip line2 \<noteq> []" "strip line3 \<noteq> []"
      "get_cat_image env (strip line1) = (fetched, ev1)" "fetched = None \<or> fetched = Some []"
  | (folder) d ev1 ev2 where "strip line1 \<noteq> []" "strip line2 \<noteq> []" "strip line3 \<noteq> []"
      "get_cat_image env (strip line1) = (Some d, ev1)" "d \<noteq> []"
      "create_yandex_folder env (strip line2) (strip line3) = (False, ev2)"
  | (upload) d ev1 ev2 success path ev3 file' ev4 where
      "strip line1 \<noteq> []" "strip line2 \<noteq> []" "strip line3 \<noteq> []"
      "get_cat_image env (strip line1) = (Some d, ev1)" "d \<noteq> []"
      "create_yandex_folder env (strip line2) (strip line3) = (True, ev2)"
      "upload_to_yandex env (strip line2) (strip line3) (derive_file_name (strip line1)) d
          = ((success, path), ev3)"
      "(if success
          then save_to_json
                 (file_info env (strip line1) (derive_file_name (strip line1)) d (strip line3) path)
                 (log_file env) (log_write env)
          else (log_file env, [])) = (file', ev4)"
proof (cases "strip line1 = [] \<or> strip line2 = [] \<or> strip line3 = []")
  case True
  then show thesis by (rule input)
next
  case ne: False
  obtain fetched ev1 where g: "get_cat_image env (strip line1) = (fetched, ev1)"
    by (cases "get_cat_image env (strip line1)")
  show thesis
  proof (cases "fetched = None \<or> fetched = Some []")
    case True
    with ne g show thesis by (intro fetch) auto
  next
    case False
    then obtain d where d: "fetched = Some d" "d \<noteq> []" by auto
    obtain created ev2 where c: "create_yandex_folder env (strip line2) (strip line3) = (created, ev2)"
      by (cases "create_yandex_folder env (strip line2) (strip line3)")
    show thesis
    proof (cases created)
      case False
      with ne g d c show thesis by (intro folder) auto
    next
      case True
      obtain success path ev3 where u:
        "upload_to_yandex env (strip line2) (strip line3) (derive_file_name (strip line1)) d
          = ((success, path), ev3)"
        by (cases "upload_to_yandex env (strip line2) (strip line3) (derive_file_name (strip line1)) d")
           auto
      obtain file' ev4 where s: "(if success
          then save_to_json
                 (file_info env (strip line1) (derive_file_name (strip line1)) d (strip line3) path)
                 (log_file env) (log_write env)
          else (log_file env, [])) = (file', ev4)"
        by (cases "(if success
          then save_to_json
                 (file_info env (strip line1) (derive_file_name (strip line1)) d (strip line3) path)
                 (log_file env) (log_write env)
          else (log_file env, []))")
      from ne g d c True u s show thesis by (intro upload) auto
    qed
  qed
qed

lemmas run_defs =
  main_def Let_def strip_def isspace_def space_ranges_def str_def get_cat_image_def cat_url_def
  quote_def utf8_char_def quote_from_bytes_def safe_byte_def always_safe_def quoter_def
  hex_digit_def raise_for_status_def create_yandex_folder_def upload_to_yandex_def
  derive_file_name_def keep_char_def replace_char_def isalnum_def ascii_alnum_ranges_def
  save_to_json_def save_to_json_try_def file_info_def header_def footer_def ok_env_def

lemma uploaded_elsewhere:
  "Print Uploaded \<notin> set header" "Print Uploaded \<notin> set footer"
  "Print Uploaded \<notin> set (snd (get_cat_image env t))"
  "Print Uploaded \<notin> set (snd (create_yandex_folder env tok g))"
  "Print Uploaded \<notin> set (snd (save_to_json d f w))"
  by (simp_all add: header_def footer_def get_cat_image_def create_yandex_folder_def
      save_to_json_def save_to_json_try_def
      split: sum.splits reply.splits option.splits log_file.splits json.splits write_outcome.splits)

lemma saved_elsewhere:
  "Print Saved \<notin> set header" "Print Saved \<notin> set footer"
  "Print Saved \<notin> set (snd (get_cat_image env t))"
  "Print Saved \<notin> set (snd (create_yandex_folder env tok g))"
  "Print Saved \<notin> set (snd (upload_to_yandex env tok g n d))"
  by (simp_all add: header_def footer_def get_cat_image_def create_yandex_folder_def
      upload_to_yandex_def Let_def
      split: sum.splits reply.splits option.splits)

lemma upload_to_yandex_uploaded:
  "upload_to_yandex env tok g n d = ((success, path), ev3) \<Longrightarrow> (Print Uploaded \<in> set ev3) = success"
  by (auto simp: upload_to_yandex_def Let_def split: reply.splits option.splits if_splits)

lemma save_to_json_failure:
  assumes "f = Unreadable \<or> f = Corrupt \<or> (\<exists>v. f = Parsed v \<and> (\<forall>rs. v \<noteq> JList rs))
           \<or> w \<noteq> WriteOk"
  shows "\<exists>e evs. snd (save_to_json d f w) = evs @ [Print (SaveError e)]
           \<and> Print Saved \<notin> set evs \<and> Print Uploaded \<notin> set evs"
  using assms
  by (cases f; cases w)
     (auto simp: save_to_json_def save_to_json_try_def split: json.splits)

lemma env_log_irrelevant:
  "get_cat_image (env\<lparr>log_file := f, log_write := w\<rparr>) t = get_cat_image env t"
  "create_yandex_folder (env\<lparr>log_file := f, log_write := w\<rparr>) tok g = create_yandex_folder env tok g"
  "upload_to_yandex (env\<lparr>log_file := f, log_write := w\<rparr>) tok g n d = upload_to_yandex env tok g n d"
  by (simp_all add: get_cat_image_def create_yandex_folder_def upload_to_yandex_def Let_def
      split: sum.splits reply.splits option.splits)

text \<open>
  Claim C6. When the caption, the token or the folder name is empty after \<open>strip\<close>,
  \<open>main\<close> returns from the input check: it has shown the banner, the prompts and the
  complaint and made no network call.
\<close>

theorem empty_input_aborts:
  assumes "strip line1 = [] \<or> strip line2 = [] \<or> strip line3 = []"
  shows "outcome (main env line1 line2 line3) = ReturnedAtInput
    \<and> trace (main env line1 line2 line3) = header @ [Print AllFieldsRequired]
    \<and> filter is_network (trace (main env line1 line2 line3)) = []
    \<and> final_log (main env line1 line2 line3) = log_file env"
  by (simp add: main_at_input [OF assms] filter_header)

text \<open>
  A token of two spaces.
\<close>

theorem empty_input_aborts_witness:
  "strip (str ''  '') = []
   \<and> outcome (main ok_env (str ''cat'') (str ''  '') (str ''group1'')) = ReturnedAtInput
   \<and> filter is_network (trace (main ok_env (str ''cat'') (str ''  '') (str ''group1''))) = []"
proof -
  have h: "strip (str ''cat'') = [] \<or> strip (str ''  '') = [] \<or> strip (str ''group1'') = []"
    by (simp add: strip_def isspace_def space_ranges_def str_def)
  have "strip (str ''  '') = []"
    by (simp add: strip_def isspace_def space_ranges_def str_def)
  with empty_input_aborts [OF h, of ok_env] show ?thesis by blast
qed

text \<open>
  Claim C9. When the image service answers with a 2xx status and an empty body,
  \<open>get_cat_image\<close> reports success but \<open>main\<close> treats the empty payload as no image:
  no folder request, no upload call and no access to the log file follow, and with all
  three inputs present the run returns at the fetch step.
\<close>

theorem empty_image_aborts:
  assumes "cat_url (strip line1) = Inr url" and "get_image env url = Reply status []"
    and "200 \<le> status" and "status < 300"
  shows "filter is_after_fetch (trace (main env line1 line2 line3)) = []
    \<and> final_log (main env line1 line2 line3) = log_file env
    \<and> (outcome (main env line1 line2 line3) = ReturnedAtInput
        \<or> outcome (main env line1 line2 line3) = ReturnedAtFetch)
    \<and> (strip line1 \<noteq> [] \<and> strip line2 \<noteq> [] \<and> strip line3 \<noteq> [] \<longrightarrow>
          main env line1 line2 line3 =
            \<lparr>outcome = ReturnedAtFetch,
             trace = header @ [Print LoadingImage, GetImage url, Print ImageReceived, Print NoImage],
             final_log = log_file env\<rparr>)"
proof -
  from assms have g: "get_cat_image env (strip line1)
      = (Some [], [Print LoadingImage, GetImage url, Print ImageReceived])"
    by (simp add: get_cat_image_def raise_for_status_def)
  show ?thesis
  proof (cases "strip line1 = [] \<or> strip line2 = [] \<or> strip line3 = []")
    case True
    then show ?thesis by (auto simp: main_at_input filter_header)
  next
    case False
    then have "main env line1 line2 line3 =
            \<lparr>outcome = ReturnedAtFetch,
             trace = header @ [Print LoadingImage, GetImage url, Print ImageReceived] @ [Print NoImage],
             final_log = log_file env\<rparr>"
      by (intro main_at_fetch [OF _ _ _ g]) auto
    then show ?thesis by (simp add: filter_header)
  qed
qed

text \<open>
  The image service answers 200 with no bytes.
\<close>

theorem empty_image_aborts_witness:
  "cat_url (strip (str ''cat'')) = Inr (str ''https://cataas.com/cat/says/cat'')
   \<and> get_image (ok_env\<lparr>get_image := (\<lambda>url. Reply 200 [])\<rparr>) (str ''https://cataas.com/cat/says/cat'')
       = Reply 200 []
   \<and> main (ok_env\<lparr>get_image := (\<lambda>url. Reply 200 [])\<rparr>) (str ''cat'') (str ''t'') (str ''group1'') =
       \<lparr>outcome = ReturnedAtFetch,
        trace = header @ [Print LoadingImage, GetImage (str ''https://cataas.com/cat/says/cat''),
                          Print ImageReceived, Print NoImage],
        final_log = Absent\<rparr>"
proof -
  have u: "cat_url (strip (str ''cat'')) = Inr (str ''https://cataas.com/cat/says/cat'')"
    by (simp add: run_defs)
  have r: "get_image (ok_env\<lparr>get_image := (\<lambda>url. Reply 200 [])\<rparr>) (str ''https://cataas.com/cat/says/cat'')
       = Reply 200 []"
    by simp
  have s: "strip (str ''cat'') \<noteq> [] \<and> strip (str ''t'') \<noteq> [] \<and> strip (str ''group1'') \<noteq> []"
    by (simp add: strip_def isspace_def space_ranges_def str_def)
  have l: "log_file (ok_env\<lparr>get_image := (\<lambda>url. Reply 200 [])\<rparr>) = Absent"
    by (simp add: ok_env_def)
  from empty_image_aborts [OF u r, of "str ''t''" "str ''group1''"] s l u r
  show ?thesis by simp
qed

text \<open>
  Claim C3. Whatever the token and the folder name, when the storage answers the folder
  request with a status, \<open>create_yandex_folder\<close> returns \<open>True\<close> exactly for 201 and 409.
  On any other status \<open>main\<close> never asks for an upload link and never sends the payload,
  leaves the log file alone and does not reach its end; a run that got as far as the folder
  step returns there, after the message that the folder could not be created.
\<close>

theorem create_yandex_folder_status:
  "(put_folder env token folder_name = Reply status body \<longrightarrow>
      fst (create_yandex_folder env token folder_name) = (status = 201 \<or> status = 409))
   \<and> (put_folder env (strip line2) (strip line3) = Reply status body
        \<and> status \<noteq> 201 \<and> status \<noteq> 409 \<longrightarrow>
          filter is_upload_call (trace (main env line1 line2 line3)) = []
        \<and> final_log (main env line1 line2 line3) = log_file env
        \<and> outcome (main env line1 line2 line3) \<noteq> ReturnedAtEnd
        \<and> (\<forall>d ev1. strip line1 \<noteq> [] \<and> strip line2 \<noteq> [] \<and> strip line3 \<noteq> []
               \<and> get_cat_image env (strip line1) = (Some d, ev1) \<and> d \<noteq> [] \<longrightarrow>
               outcome (main env line1 line2 line3) = ReturnedAtFolder
             \<and> (\<exists>ev2. trace (main env line1 line2 line3) = header @ ev1 @ ev2 @ [Print NoFolder])))"
proof -
  have 1: "fst (create_yandex_folder env token folder_name) = (status = 201 \<or> status = 409)"
    if "put_folder env token folder_name = Reply status body"
    using that by (simp add: create_yandex_folder_def split: option.splits)
  have 2: "filter is_upload_call (trace (main env line1 line2 line3)) = []
        \<and> final_log (main env line1 line2 line3) = log_file env
        \<and> outcome (main env line1 line2 line3) \<noteq> ReturnedAtEnd
        \<and> (\<forall>d ev1. strip line1 \<noteq> [] \<and> strip line2 \<noteq> [] \<and> strip line3 \<noteq> []
               \<and> get_cat_image env (strip line1) = (Some d, ev1) \<and> d \<noteq> [] \<longrightarrow>
               outcome (main env line1 line2 line3) = ReturnedAtFolder
             \<and> (\<exists>ev2. trace (main env line1 line2 line3) = header @ ev1 @ ev2 @ [Print NoFolder]))"
    if a: "put_folder env (strip line2) (strip line3) = Reply status body
        \<and> status \<noteq> 201 \<and> status \<noteq> 409"
  proof -
    from a have f: "\<not> fst (create_yandex_folder env (strip line2) (strip line3))"
      by (simp add: create_yandex_folder_def split: option.splits)
    show ?thesis
    proof (cases rule: main_exits [where ?line1.0 = line1 and ?line2.0 = line2 and ?line3.0 = line3 and env = env])
      case input
      then show ?thesis by (auto simp: main_at_input filter_header)
    next
      case (fetch fetched ev1)
      from get_cat_image_quiet(1) [of env "strip line1"] fetch(4)
      have "filter is_upload_call ev1 = []" by simp
      with fetch show ?thesis
        by (auto simp: main_at_fetch [OF fetch] filter_header)
    next
      case (folder d ev1 ev2)
      from get_cat_image_quiet(1) [of env "strip line1"] folder(4)
      have "filter is_upload_call ev1 = []" by simp
      moreover from create_yandex_folder_quiet [of env "strip line2" "strip line3"] folder(6)
      have "filter is_upload_call ev2 = []" by simp
      ultimately show ?thesis
        using folder(4) by (auto simp: main_at_folder [OF folder] filter_header)
    next
      case (upload d ev1 ev2 success path ev3 file' ev4)
      with f show ?thesis by simp
    qed
  qed
  from 1 2 show ?thesis by blast
qed

text \<open>
  A run in which the storage answers the folder request with 403.
\<close>

theorem create_yandex_folder_status_witness:
  "put_folder (ok_env\<lparr>put_folder := (\<lambda>token path. Reply 403 None)\<rparr>) (strip (str ''t''))
      (strip (str ''group1'')) = Reply 403 None
   \<and> \<not> fst (create_yandex_folder (ok_env\<lparr>put_folder := (\<lambda>token path. Reply 403 None)\<rparr>)
             (strip (str ''t'')) (strip (str ''group1'')))
   \<and> outcome (main (ok_env\<lparr>put_folder := (\<lambda>token path. Reply 403 None)\<rparr>)
        (str ''cat'') (str ''t'') (str ''group1'')) = ReturnedAtFolder
   \<and> filter is_upload_call (trace (main (ok_env\<lparr>put_folder := (\<lambda>token path. Reply 403 None)\<rparr>)
        (str ''cat'') (str ''t'') (str ''group1''))) = []"
proof -
  let ?env = "ok_env\<lparr>put_folder := (\<lambda>token path. Reply 403 None)\<rparr>"
  have r: "put_folder ?env (strip (str ''t'')) (strip (str ''group1'')) = Reply 403 None"
    by simp
  have s: "strip (str ''cat'') \<noteq> [] \<and> strip (str ''t'') \<noteq> [] \<and> strip (str ''group1'') \<noteq> []"
    by (simp add: strip_def isspace_def space_ranges_def str_def)
  have g: "get_cat_image ?env (strip (str ''cat''))
    = (Some [0xFF, 0xD8, 0xFF],
       [Print LoadingImage, GetImage (str ''https://cataas.com/cat/says/cat''), Print ImageReceived])"
    by (simp add: run_defs)
  from create_yandex_folder_status
    [of ?env "strip (str ''t'')" "strip (str ''group1'')" 403 None "str ''t''" "str ''group1''" "str ''cat''"]
    r s g
  show ?thesis by auto
qed

text \<open>
  Claim C4. When the \<open>try\<close> block of \<open>save_to_json\<close> completes, a log file that parsed
  as the list \<open>records\<close> holds \<open>records\<close> followed by the new record: one record more,
  the earlier ones unchanged and in their order, the new one last. An absent file becomes
  the one-element list.
\<close>

theorem save_to_json_appends:
  assumes "save_to_json_try data file w = (Inr (), file', evs)"
  shows "(file = Parsed (JList records) \<longrightarrow>
            file' = Parsed (JList (records @ [data]))
          \<and> length (records @ [data]) = length records + 1
          \<and> take (length records) (records @ [data]) = records
          \<and> last (records @ [data]) = data)
       \<and> (file = Absent \<longrightarrow> file' = Parsed (JList [data]))
       \<and> save_to_json data file w = (file', evs)
       \<and> Print Saved \<in> set evs"
  using assms
  by (cases "file"; cases w)
     (auto simp: save_to_json_def save_to_json_try_def split: json.splits)

text \<open>
  Appending to a log of two records, and to no log at all.
\<close>

theorem save_to_json_appends_witness:
  "save_to_json_try (JInt 3) (Parsed (JList [JInt 1, JInt 2])) WriteOk
     = (Inr (), Parsed (JList [JInt 1, JInt 2, JInt 3]), [ReadLog, WriteLog, Print Saved])
   \<and> save_to_json (JInt 3) (Parsed (JList [JInt 1, JInt 2])) WriteOk
     = (Parsed (JList [JInt 1, JInt 2, JInt 3]), [ReadLog, WriteLog, Print Saved])
   \<and> save_to_json_try (JInt 3) Absent WriteOk
     = (Inr (), Parsed (JList [JInt 3]), [WriteLog, Print Saved])
   \<and> save_to_json (JInt 3) Absent WriteOk = (Parsed (JList [JInt 3]), [WriteLog, Print Saved])"
proof -
  have a: "save_to_json_try (JInt 3) (Parsed (JList [JInt 1, JInt 2])) WriteOk
     = (Inr (), Parsed (JList [JInt 1, JInt 2, JInt 3]), [ReadLog, WriteLog, Print Saved])"
    by (simp add: save_to_json_try_def)
  have b: "save_to_json_try (JInt 3) Absent WriteOk
     = (Inr (), Parsed (JList [JInt 3]), [WriteLog, Print Saved])"
    by (simp add: save_to_json_try_def)
  note c = save_to_json_appends [OF a, of "[JInt 1, JInt 2]", THEN conjunct2, THEN conjunct2,
      THEN conjunct1]
  note d = save_to_json_appends [OF b, of "[]", THEN conjunct2, THEN conjunct2, THEN conjunct1]
  from a c b d show ?thesis by (intro conjI)
qed

text \<open>
  Claim C5. Take a run that printed the upload success message, and let the logging step
  fail: the log file cannot be opened, does not parse, parses to something that is not a
  list, or cannot be written. Then \<open>main\<close> still runs to its end: the trace closes with the
  report of the logging failure followed by the completion messages, the success message
  of the upload comes before them, no message claims that the log was saved, and the
  network calls are those of the same run with a healthy log.
\<close>

theorem log_failure_is_isolated:
  assumes up: "Print Uploaded \<in> set (trace (main env line1 line2 line3))"
    and bad: "log_file env = Unreadable \<or> log_file env = Corrupt
              \<or> (\<exists>v. log_file env = Parsed v \<and> (\<forall>rs. v \<noteq> JList rs))
              \<or> log_write env \<noteq> WriteOk"
  shows "outcome (main env line1 line2 line3) = ReturnedAtEnd
    \<and> (\<exists>e before. trace (main env line1 line2 line3) = before @ [Print (SaveError e)] @ footer
          \<and> Print Uploaded \<in> set before)
    \<and> Print Saved \<notin> set (trace (main env line1 line2 line3))
    \<and> filter is_network (trace (main env line1 line2 line3))
        = filter is_network
            (trace (main (env\<lparr>log_file := Absent, log_write := WriteOk\<rparr>) line1 line2 line3))"
proof (cases rule: main_exits [where ?line1.0 = line1 and ?line2.0 = line2 and ?line3.0 = line3 and env = env])
  case input
  with up uploaded_elsewhere(1) show ?thesis by (simp add: main_at_input)
next
  case (fetch fetched ev1)
  from uploaded_elsewhere(3) [of env "strip line1"] fetch(4)
  have "Print Uploaded \<notin> set ev1" by simp
  with up uploaded_elsewhere(1) show ?thesis by (simp add: main_at_fetch [OF fetch])
next
  case (folder d ev1 ev2)
  from uploaded_elsewhere(3) [of env "strip line1"] folder(4)
  have "Print Uploaded \<notin> set ev1" by simp
  moreover from uploaded_elsewhere(4) [of env "strip line2" "strip line3"] folder(6)
  have "Print Uploaded \<notin> set ev2" by simp
  ultimately show ?thesis
    using up uploaded_elsewhere(1) by (simp add: main_at_folder [OF folder])
next
  case (upload d ev1 ev2 success path ev3 file' ev4)
  let ?info = "file_info env (strip line1) (derive_file_name (strip line1)) d (strip line3) path"
  let ?env' = "env\<lparr>log_file := Absent, log_write := WriteOk\<rparr>"
  note m = main_at_end [OF upload]
  from uploaded_elsewhere(3) [of env "strip line1"] upload(4)
  have n1: "Print Uploaded \<notin> set ev1" by simp
  from uploaded_elsewhere(4) [of env "strip line2" "strip line3"] upload(6)
  have n2: "Print Uploaded \<notin> set ev2" by simp
  from uploaded_elsewhere(5) [of ?info "log_file env" "log_write env"] upload(8)
  have n4: "Print Uploaded \<notin> set ev4" by (auto split: if_splits)
  from up n1 n2 n4 uploaded_elsewhere(1,2) have "Print Uploaded \<in> set ev3"
    by (simp add: m)
  with upload_to_yandex_uploaded [OF upload(7)] have success: success by simp
  with upload(8) have ev4: "ev4 = snd (save_to_json ?info (log_file env) (log_write env))"
    by simp
  from save_to_json_failure [OF bad, of ?info] obtain e evs where
    evs: "ev4 = evs @ [Print (SaveError e)]" "Print Saved \<notin> set evs"
    unfolding ev4 by blast
  from saved_elsewhere(3) [of env "strip line1"] upload(4)
  have s1: "Print Saved \<notin> set ev1" by simp
  from saved_elsewhere(4) [of env "strip line2" "strip line3"] upload(6)
  have s2: "Print Saved \<notin> set ev2" by simp
  from saved_elsewhere(5) [of env "strip line2" "strip line3" "derive_file_name (strip line1)" d]
    upload(7)
  have s3: "Print Saved \<notin> set ev3" by simp
  have t: "trace (main env line1 line2 line3)
      = (header @ ev1 @ ev2 @ ev3 @ evs) @ [Print (SaveError e)] @ footer"
    by (simp add: m evs)
  have c1: "outcome (main env line1 line2 line3) = ReturnedAtEnd" by (simp add: m)
  have c2: "\<exists>e before. trace (main env line1 line2 line3) = before @ [Print (SaveError e)] @ footer
          \<and> Print Uploaded \<in> set before"
    using t \<open>Print Uploaded \<in> set ev3\<close> by (intro exI [of _ e] exI [of _ "header @ ev1 @ ev2 @ ev3 @ evs"]) simp
  have c3: "Print Saved \<notin> set (trace (main env line1 line2 line3))"
    using s1 s2 s3 evs(2) saved_elsewhere(1,2) by (simp add: t)
  have i: "file_info ?env' (strip line1) (derive_file_name (strip line1)) d (strip line3) path = ?info"
    by (simp add: file_info_def)
  have m': "main ?env' line1 line2 line3 =
      \<lparr>outcome = ReturnedAtEnd,
       trace = header @ ev1 @ ev2 @ ev3 @ snd (save_to_json ?info Absent WriteOk) @ footer,
       final_log = fst (save_to_json ?info Absent WriteOk)\<rparr>"
    by (rule main_at_end [OF upload(1-3), of ?env' d ev1 ev2 success path ev3])
       (simp_all add: env_log_irrelevant upload success i)
  have c4: "filter is_network (trace (main env line1 line2 line3))
        = filter is_network (trace (main ?env' line1 line2 line3))"
    using save_to_json_quiet [of ?info "log_file env" "log_write env"]
      save_to_json_quiet [of ?info Absent WriteOk]
    by (simp add: m m' ev4)
  from c1 c2 c3 c4 show ?thesis by blast
qed

text \<open>
  A complete run against a log file that does not parse.
\<close>

theorem log_failure_is_isolated_witness:
  "trace (main (ok_env\<lparr>log_file := Corrupt\<rparr>) (str ''cat'') (str ''t'') (str ''group1''))
     = header
       @ [Print LoadingImage, GetImage (str ''https://cataas.com/cat/says/cat''), Print ImageReceived,
          PutFolder (str ''t'') (str ''group1''), Print (FolderReady (str ''group1'')),
          Print GettingLink, GetUploadLink (str ''t'') (str ''group1/cat.jpg''),
          Print (Uploading (str ''cat'')),
          PutData (JStr (str ''https://up/1'')) [0xFF, 0xD8, 0xFF], Progress 3, Print Uploaded,
          ReadLog, Print (SaveError JSONDecodeError)]
       @ footer
   \<and> outcome (main (ok_env\<lparr>log_file := Corrupt\<rparr>) (str ''cat'') (str ''t'') (str ''group1''))
       = ReturnedAtEnd
   \<and> Print Saved \<notin> set (trace (main (ok_env\<lparr>log_file := Corrupt\<rparr>) (str ''cat'') (str ''t'')
         (str ''group1'')))"
proof -
  let ?env = "ok_env\<lparr>log_file := Corrupt\<rparr>"
  have t: "trace (main ?env (str ''cat'') (str ''t'') (str ''group1''))
     = header
       @ [Print LoadingImage, GetImage (str ''https://cataas.com/cat/says/cat''), Print ImageReceived,
          PutFolder (str ''t'') (str ''group1''), Print (FolderReady (str ''group1'')),
          Print GettingLink, GetUploadLink (str ''t'') (str ''group1/cat.jpg''),
          Print (Uploading (str ''cat'')),
          PutData (JStr (str ''https://up/1'')) [0xFF, 0xD8, 0xFF], Progress 3, Print Uploaded,
          ReadLog, Print (SaveError JSONDecodeError)]
       @ footer"
    by (simp add: run_defs)
  then have up: "Print Uploaded \<in> set (trace (main ?env (str ''cat'') (str ''t'') (str ''group1'')))"
    by simp
  have bad: "log_file ?env = Unreadable \<or> log_file ?env = Corrupt
              \<or> (\<exists>v. log_file ?env = Parsed v \<and> (\<forall>rs. v \<noteq> JList rs))
              \<or> log_write ?env \<noteq> WriteOk"
    by simp
  from log_failure_is_isolated [OF up bad] t show ?thesis by blast
qed

end
